theory Spec2Isabelle
  imports Complex_Main "HOL-Library.Word"
begin

unbundle bit_operations_syntax

section \<open>Python values used by \<open>legal_tool.py\<close>\<close>

text \<open>
  A Python \<open>str\<close> is a sequence of Unicode code points. Lone surrogates
  (U+D800..U+DFFF) are legal elements of a \<open>str\<close>; they matter below because
  \<open>str.encode()\<close> refuses them. Code points are below \<open>0x110000\<close>.
\<close>

type_synonym pystr = "nat list"

definition lit :: "string \<Rightarrow> pystr" where
  "lit s = map of_char s"

type_synonym u8 = "8 word"

text \<open>
  The exceptions that occur. \<open>PermissionError\<close> is a subclass of \<open>OSError\<close>, and every
  class but \<open>KeyboardInterrupt\<close> is a subclass of \<open>Exception\<close>.
\<close>

datatype exn =
    PermissionError pystr
  | OSError pystr
  | UnicodeEncodeError pystr
  | EOFError
  | Exception pystr
  | KeyboardInterrupt

fun is_Exception :: "exn \<Rightarrow> bool" where
  "is_Exception KeyboardInterrupt = False"
| "is_Exception _ = True"

fun is_PermissionError :: "exn \<Rightarrow> bool" where
  "is_PermissionError (PermissionError _) = True"
| "is_PermissionError _ = False"


text \<open>\<open>str(e)\<close>: the message of an exception.\<close>

fun str_exn :: "exn \<Rightarrow> pystr" where
  "str_exn (PermissionError m) = m"
| "str_exn (OSError m) = m"
| "str_exn (UnicodeEncodeError m) = m"
| "str_exn EOFError = []"
| "str_exn (Exception m) = m"
| "str_exn KeyboardInterrupt = []"

text \<open>
  A langchain \<open>Document\<close>: its text and the \<open>source\<close> entry of its metadata
  dictionary (\<open>None\<close> when the key is absent).
\<close>

record doc =
  page_content :: pystr
  source :: "pystr option"

section \<open>\<open>str.encode()\<close>: UTF-8 with the strict error handler\<close>

definition is_surrogate :: "nat \<Rightarrow> bool" where
  "is_surrogate c = (0xD800 \<le> c \<and> c \<le> 0xDFFF)"

definition surrogates_not_allowed :: pystr where
  "surrogates_not_allowed = lit ''surrogates not allowed''"

definition utf8_char :: "nat \<Rightarrow> exn + u8 list" where
  "utf8_char c =
     (if c < 0x80 then Inr [word_of_nat c]
      else if c < 0x800 then
        Inr [word_of_nat (0xC0 + c div 64), word_of_nat (0x80 + c mod 64)]
      else if is_surrogate c then Inl (UnicodeEncodeError surrogates_not_allowed)
      else if c < 0x10000 then
        Inr [word_of_nat (0xE0 + c div 4096), word_of_nat (0x80 + c div 64 mod 64),
             word_of_nat (0x80 + c mod 64)]
      else
        Inr [word_of_nat (0xF0 + c div 262144), word_of_nat (0x80 + c div 4096 mod 64),
             word_of_nat (0x80 + c div 64 mod 64), word_of_nat (0x80 + c mod 64)])"

fun encode :: "pystr \<Rightarrow> exn + u8 list" where
  "encode [] = Inr []"
| "encode (c # cs) =
     (case utf8_char c of
        Inl e \<Rightarrow> Inl e
      | Inr bs \<Rightarrow> (case encode cs of Inl e \<Rightarrow> Inl e | Inr rest \<Rightarrow> Inr (bs @ rest)))"

section \<open>Digests\<close>

text \<open>
  \<open>hashlib.sha256\<close> is a library function. The model takes it as a parameter \<open>sha256\<close>,
  from the bytes hashed to the bytes of the digest, of which SHA-256 yields 32;
  \<open>hexdigest\<close> writes each byte of a digest as two lower-case hexadecimal digits.
\<close>

type_synonym digest = "u8 list \<Rightarrow> u8 list"

definition hex_digits :: pystr where
  "hex_digits = lit ''0123456789abcdef''"

definition hex_digit :: "u8 \<Rightarrow> nat" where
  "hex_digit n = hex_digits ! unat (n AND 15)"

definition hexdigest :: "u8 list \<Rightarrow> pystr" where
  "hexdigest bs = concat (map (\<lambda>b. [hex_digit (drop_bit 4 b), hex_digit b]) bs)"

section \<open>Chunk fingerprints (\<open>legal_analyst_tool\<close>, lines 77 to 80)\<close>

text \<open>
  \<open>content_hash = hashlib.sha256(chunk.page_content.encode()).hexdigest()\<close> and
  \<open>content_hash[:16]\<close>, for one chunk.
\<close>

definition chunk_id :: "digest \<Rightarrow> pystr \<Rightarrow> exn + pystr" where
  "chunk_id sha256 text =
     (case encode text of
        Inl e \<Rightarrow> Inl e
      | Inr bs \<Rightarrow> Inr (take 16 (hexdigest (sha256 bs))))"

text \<open>The loop over \<open>chunks\<close>: the first exception ends it.\<close>

fun chunk_ids_of :: "digest \<Rightarrow> doc list \<Rightarrow> exn + pystr list" where
  "chunk_ids_of sha256 [] = Inr []"
| "chunk_ids_of sha256 (chunk # chunks) =
     (case chunk_id sha256 (page_content chunk) of
        Inl e \<Rightarrow> Inl e
      | Inr h \<Rightarrow>
          (case chunk_ids_of sha256 chunks of Inl e \<Rightarrow> Inl e | Inr hs \<Rightarrow> Inr (h # hs)))"

section \<open>The store directory and the console\<close>

definition CHROMA_DB_DIR :: pystr where
  "CHROMA_DB_DIR = lit ''./chroma_db''"

text \<open>
  The file system as the code sees it: which paths exist, and what a path holds. The type
  of the contents is left open; ingestion takes it to be the collection kept in a store
  directory, introspection the tree of files below it.
\<close>

type_synonym 'd fs = "pystr \<rightharpoonup> 'd"

definition path_exists :: "'d fs \<Rightarrow> pystr \<Rightarrow> bool" where
  "path_exists fs p = (fs p \<noteq> None)"

text \<open>
  What one call of \<open>shutil.rmtree\<close> does is decided outside the program: it removes the
  directory, or it raises and leaves the directory in place, with whatever contents the
  interrupted removal left behind.
\<close>

datatype 'd rm_result = Removed | Raised exn 'd

definition rmtree :: "'d rm_result \<Rightarrow> pystr \<Rightarrow> 'd fs \<Rightarrow> exn option \<times> 'd fs" where
  "rmtree r p fs =
     (case r of Removed \<Rightarrow> (None, fs(p := None)) | Raised e d \<Rightarrow> (Some e, fs(p \<mapsto> d)))"

text \<open>\<open>os.rename\<close>: moves the directory, or raises and changes nothing.\<close>

definition os_rename :: "exn option \<Rightarrow> pystr \<Rightarrow> pystr \<Rightarrow> 'd fs \<Rightarrow> exn option \<times> 'd fs" where
  "os_rename r src dst fs =
     (case r of None \<Rightarrow> (None, fs(src := None, dst := fs src)) | Some e \<Rightarrow> (Some e, fs))"

text \<open>\<open>str(n)\<close> for a non-negative integer.\<close>

fun str_nat :: "nat \<Rightarrow> pystr" where
  "str_nat n = (if n < 10 then [48 + n] else str_nat (n div 10) @ [48 + n mod 10])"

declare str_nat.simps [simp del]

text \<open>One constructor for each \<open>print\<close> of the tool, with the values it formats.\<close>

datatype message =
    ExistingDatabaseDetected
  | PleaseEnterYOrN
  | KeepingExistingDatabase
  | DeletingExistingDatabase
  | DatabaseDeleted
  | WaitingForFileLocks nat nat
  | CouldNotDeleteDatabase
  | OldDatabaseMovedTo pystr
  | NoExistingDatabaseFound
  | CreatedChunks nat
  | DuplicateChunksDetected nat
  | AllChunksAlreadyExist nat
  | TotalChunksInDatabase nat
  | SearchingOnlyCurrentPdf pystr
  | NoChunksFromCurrentPdf
  | SearchingAllPdfs
  | SourcesUsed "pystr set"

text \<open>What the tool does to the world besides the store: in the order it does it.\<close>

datatype event =
    Print message
  | GcCollect
  | Sleep nat \<comment> \<open>milliseconds\<close>
  | CallRmtree pystr
  | CallRename pystr pystr

section \<open>Fresh-mode reset (\<open>legal_analyst_tool\<close>, lines 38 to 62)\<close>

definition max_retries :: nat where
  "max_retries = 3"

definition backup_name :: "nat \<Rightarrow> pystr" where
  "backup_name now = CHROMA_DB_DIR @ lit ''_backup_'' @ str_nat now"

definition cannot_delete_or_rename :: "exn \<Rightarrow> pystr" where
  "cannot_delete_or_rename e =
     lit ''Cannot delete or rename database. Please close all programs using it and try again. Error: ''
       @ str_exn e"

text \<open>
  The loop \<open>for attempt in range(max_retries)\<close>, over the attempts still to make.
  \<open>rm attempt\<close> is what the call of \<open>shutil.rmtree\<close> in that attempt does, \<open>rn\<close> what
  \<open>os.rename\<close> does, \<open>now\<close> is \<open>int(time.time())\<close>. Only \<open>PermissionError\<close> is caught;
  the handler of the rename catches every \<open>Exception\<close> and raises a new one, whose message
  ends with the \<open>PermissionError\<close> of the removal.
\<close>

fun delete_loop ::
  "(nat \<Rightarrow> 'd rm_result) \<Rightarrow> exn option \<Rightarrow> nat \<Rightarrow> nat list \<Rightarrow> 'd fs
     \<Rightarrow> (exn + unit) \<times> event list \<times> 'd fs" where
  "delete_loop rm rn now [] fs = (Inr (), [], fs)"
| "delete_loop rm rn now (attempt # rest) fs =
     (case rmtree (rm attempt) CHROMA_DB_DIR fs of
        (None, fs1) \<Rightarrow> (Inr (), [CallRmtree CHROMA_DB_DIR, Print DatabaseDeleted], fs1)
      | (Some e, fs1) \<Rightarrow>
          if \<not> is_PermissionError e then (Inl e, [CallRmtree CHROMA_DB_DIR], fs1)
          else if attempt < max_retries - 1 then
            (case delete_loop rm rn now rest fs1 of
               (r, evs, fs2) \<Rightarrow>
                 (r, [CallRmtree CHROMA_DB_DIR,
                      Print (WaitingForFileLocks (attempt + 1) max_retries), Sleep 1000] @ evs, fs2))
          else
            (case os_rename rn CHROMA_DB_DIR (backup_name now) fs1 of
               (None, fs2) \<Rightarrow>
                 (case delete_loop rm rn now rest fs2 of
                    (r, evs, fs3) \<Rightarrow>
                      (r, [CallRmtree CHROMA_DB_DIR, Print CouldNotDeleteDatabase,
                           CallRename CHROMA_DB_DIR (backup_name now),
                           Print (OldDatabaseMovedTo (backup_name now))] @ evs, fs3))
             | (Some rename_error, fs2) \<Rightarrow>
                 (if is_Exception rename_error
                  then Inl (Exception (cannot_delete_or_rename e))
                  else Inl rename_error,
                  [CallRmtree CHROMA_DB_DIR, Print CouldNotDeleteDatabase,
                   CallRename CHROMA_DB_DIR (backup_name now)], fs2)))"

definition delete_database ::
  "(nat \<Rightarrow> 'd rm_result) \<Rightarrow> exn option \<Rightarrow> nat \<Rightarrow> 'd fs \<Rightarrow> (exn + unit) \<times> event list \<times> 'd fs" where
  "delete_database rm rn now fs =
     (case delete_loop rm rn now [0..<max_retries] fs of
        (r, evs, fs1) \<Rightarrow> (r, [Print DeletingExistingDatabase, GcCollect, Sleep 500] @ evs, fs1))"

section \<open>\<open>clear_database\<close>\<close>

definition clear_database :: "'d rm_result \<Rightarrow> 'd fs \<Rightarrow> (exn + bool) \<times> 'd fs" where
  "clear_database rm fs =
     (if path_exists fs CHROMA_DB_DIR then
        (case rmtree rm CHROMA_DB_DIR fs of
           (None, fs1) \<Rightarrow> (Inr True, fs1)
         | (Some e, fs1) \<Rightarrow> (Inl e, fs1))
      else (Inr False, fs))"

section \<open>Database introspection\<close>








section \<open>The vector store\<close>

text \<open>
  Modelled from the spec: the Chroma collection behind \<open>vectorstore\<close> is a library, not
  code of this repository. The spec's contract for it (section 6 and section 2) is
  \<open>count() -> integer\<close>, \<open>getByIds(ids) -> set of existing ids\<close>, \<open>addDocuments(chunks, ids)\<close>
  as a batched upsert-if-absent, and \<open>similaritySearch(queryText, k) -> ordered chunks\<close>.
  A collection is the list of its entries, each an id with its document, oldest first.
\<close>

type_synonym collection = "(pystr \<times> doc) list"

definition get_by_ids :: "collection \<Rightarrow> pystr list \<Rightarrow> pystr list" where
  "get_by_ids c ids = filter (\<lambda>i. i \<in> set ids) (map fst c)"

fun add_documents :: "collection \<Rightarrow> (pystr \<times> doc) list \<Rightarrow> collection" where
  "add_documents c [] = c"
| "add_documents c ((i, d) # rest) =
     add_documents (if i \<in> set (map fst c) then c else c @ [(i, d)]) rest"

text \<open>
  \<open>rank\<close> orders the entries of a collection by similarity to a question, most similar
  first; the search returns the first \<open>k\<close> of them.
\<close>

definition similarity_search :: "doc list \<Rightarrow> nat \<Rightarrow> doc list" where
  "similarity_search ranked k = take k ranked"

text \<open>
  What lies outside the program and decides how a run goes: the outcomes of the file
  operations, the clock, the console, the PDF loader and splitter, the failures of the
  store and of the embedding service, the ranking, the language model, and the digest
  function of \<open>hashlib\<close>.
\<close>

record ext =
  hashlib_sha256 :: digest
  rm :: "nat \<Rightarrow> collection rm_result"
  rn :: "exn option"
  now :: nat
  stdin :: "pystr list"
  load :: "pystr \<Rightarrow> exn + doc list"
  split_documents :: "doc list \<Rightarrow> doc list"
  open_raises :: "exn option"
  get_raises :: "exn option"
  embed_raises :: "exn option"
  search_raises :: "exn option"
  rank :: "collection \<Rightarrow> pystr \<Rightarrow> doc list"
  llm_invoke :: "pystr \<Rightarrow> exn + pystr"

section \<open>\<open>get_database_chunk_count\<close>\<close>


section \<open>Ingestion (\<open>legal_analyst_tool\<close>, lines 82 to 122)\<close>

text \<open>
  The membership lookup \<open>vectorstore._collection.get(ids=chunk_ids, include=[])\<close> inside
  its \<open>try\<close>: when the call raises an \<open>Exception\<close>, the handler takes the empty set.
\<close>

definition existing_ids_of :: "exn option \<Rightarrow> collection \<Rightarrow> pystr list \<Rightarrow> exn + pystr set" where
  "existing_ids_of raises stored chunk_ids =
     (case raises of
        None \<Rightarrow> Inr (set (get_by_ids stored chunk_ids))
      | Some e \<Rightarrow> if is_Exception e then Inr {} else Inl e)"

text \<open>The loop over \<open>zip(chunks, chunk_ids)\<close> that fills \<open>new_chunks\<close> and \<open>new_chunk_ids\<close>.\<close>

fun select_new :: "doc list \<Rightarrow> pystr list \<Rightarrow> pystr set \<Rightarrow> doc list \<times> pystr list" where
  "select_new (chunk # chunks) (cid # chunk_ids) existing_ids =
     (case select_new chunks chunk_ids existing_ids of
        (new_chunks, new_chunk_ids) \<Rightarrow>
          if cid \<notin> existing_ids then (chunk # new_chunks, cid # new_chunk_ids)
          else (new_chunks, new_chunk_ids))"
| "select_new _ _ _ = ([], [])"

text \<open>
  The locals of the accumulate branch when it has run through. \<open>add_documents_call\<close> holds
  the arguments of \<open>vectorstore.add_documents\<close>, the one place where chunks are embedded
  and inserted, or \<open>None\<close> when it was not called.
\<close>

record accumulated =
  chunks_before :: nat
  existing_ids :: "pystr set"
  new_chunks :: "doc list"
  new_chunk_ids :: "pystr list"
  duplicates_skipped :: int
  add_documents_call :: "(doc list \<times> pystr list) option"
  vectorstore :: collection

definition accumulate ::
  "ext \<Rightarrow> collection \<Rightarrow> doc list \<Rightarrow> pystr list \<Rightarrow> (exn + accumulated) \<times> event list" where
  "accumulate x stored chunks chunk_ids =
     (case open_raises x of
        Some e \<Rightarrow> (Inl e, [])
      | None \<Rightarrow>
          (case existing_ids_of (get_raises x) stored chunk_ids of
             Inl e \<Rightarrow> (Inl e, [])
           | Inr ids \<Rightarrow>
               (case select_new chunks chunk_ids ids of
                  (ncs, nids) \<Rightarrow>
                    (let skipped = int (length chunks) - int (length ncs);
                         note = (if 0 < skipped then [Print (DuplicateChunksDetected (nat skipped))]
                                 else [])
                     in if ncs \<noteq> [] then
                          (case embed_raises x of
                             Some e \<Rightarrow> (Inl e, note)
                           | None \<Rightarrow>
                               (Inr \<lparr>chunks_before = length stored, existing_ids = ids,
                                     new_chunks = ncs, new_chunk_ids = nids,
                                     duplicates_skipped = skipped,
                                     add_documents_call = Some (ncs, nids),
                                     vectorstore = add_documents stored (zip nids ncs)\<rparr>, note))
                        else
                          (Inr \<lparr>chunks_before = length stored, existing_ids = ids,
                                new_chunks = ncs, new_chunk_ids = nids,
                                duplicates_skipped = skipped,
                                add_documents_call = None,
                                vectorstore = stored\<rparr>,
                           [Print (AllChunksAlreadyExist (length chunks))])))))"

text \<open>
  \<open>Chroma.from_documents\<close>: opens or creates the store at the directory, which exists from
  then on, embeds every chunk and adds it under its id.
\<close>

definition from_documents ::
  "ext \<Rightarrow> doc list \<Rightarrow> pystr list \<Rightarrow> collection fs \<Rightarrow> (exn + collection) \<times> collection fs" where
  "from_documents x chunks chunk_ids fs =
     (case open_raises x of
        Some e \<Rightarrow> (Inl e, fs)
      | None \<Rightarrow>
          (let stored = (case fs CHROMA_DB_DIR of None \<Rightarrow> [] | Some c \<Rightarrow> c)
           in case embed_raises x of
                Some e \<Rightarrow> (Inl e, fs(CHROMA_DB_DIR \<mapsto> stored))
              | None \<Rightarrow>
                  (let c = add_documents stored (zip chunk_ids chunks)
                   in (Inr c, fs(CHROMA_DB_DIR \<mapsto> c)))))"

text \<open>
  The branch on \<open>os.path.exists(CHROMA_DB_DIR) and use_existing_db\<close>, then the count that
  is printed. The result is the collection behind \<open>vectorstore\<close>.
\<close>

definition ingest ::
  "ext \<Rightarrow> bool option \<Rightarrow> doc list \<Rightarrow> pystr list \<Rightarrow> collection fs
     \<Rightarrow> (exn + collection) \<times> event list \<times> collection fs" where
  "ingest x use_existing_db chunks chunk_ids fs =
     (case (if use_existing_db = Some True then fs CHROMA_DB_DIR else None) of
        Some stored \<Rightarrow>
          (case accumulate x stored chunks chunk_ids of
             (Inl e, evs) \<Rightarrow> (Inl e, evs, fs)
           | (Inr a, evs) \<Rightarrow>
               (Inr (vectorstore a),
                evs @ [Print (TotalChunksInDatabase (length (vectorstore a)))],
                fs(CHROMA_DB_DIR \<mapsto> vectorstore a)))
      | None \<Rightarrow>
          (case from_documents x chunks chunk_ids fs of
             (Inl e, fs1) \<Rightarrow> (Inl e, [], fs1)
           | (Inr c, fs1) \<Rightarrow> (Inr c, [Print (TotalChunksInDatabase (length c))], fs1)))"

section \<open>Retrieval (\<open>legal_analyst_tool\<close>, lines 130 to 156)\<close>

text \<open>\<open>os.path.basename\<close> of \<open>posixpath\<close>: what follows the last slash.\<close>

definition basename :: "pystr \<Rightarrow> pystr" where
  "basename p = rev (takeWhile (\<lambda>c. c \<noteq> 47) (rev p))"

definition endswith :: "pystr \<Rightarrow> pystr \<Rightarrow> bool" where
  "endswith s t = (length t \<le> length s \<and> drop (length s - length t) s = t)"

text \<open>\<open>doc.metadata.get('source', '')\<close>\<close>

definition source_or_empty :: "doc \<Rightarrow> pystr" where
  "source_or_empty d = (case source d of None \<Rightarrow> [] | Some s \<Rightarrow> s)"

definition retrieve ::
  "ext \<Rightarrow> collection \<Rightarrow> pystr \<Rightarrow> pystr \<Rightarrow> bool \<Rightarrow> (exn + doc list) \<times> event list" where
  "retrieve x c pdf_file_path question filter_by_current_pdf =
     (case search_raises x of
        Some e \<Rightarrow> (Inl e, [])
      | None \<Rightarrow>
          if filter_by_current_pdf then
            (let current_pdf_name = basename pdf_file_path;
                 all_relevant_docs = similarity_search (rank x c question) 20;
                 relevant_docs =
                   take 5 (filter (\<lambda>d. endswith (source_or_empty d) current_pdf_name)
                             all_relevant_docs)
             in if relevant_docs \<noteq> []
                then (Inr relevant_docs, [Print (SearchingOnlyCurrentPdf current_pdf_name)])
                else (Inr (take 5 all_relevant_docs), [Print NoChunksFromCurrentPdf]))
          else (Inr (similarity_search (rank x c question) 5), [Print SearchingAllPdfs]))"

text \<open>The set \<open>source_files\<close> of the base names of the sources, printed when not empty.\<close>

definition sources_used :: "doc list \<Rightarrow> event list" where
  "sources_used relevant_docs =
     (let source_files =
            set (map basename
              (concat (map (\<lambda>d. case source d of None \<Rightarrow> [] | Some s \<Rightarrow> [s]) relevant_docs)))
      in if source_files \<noteq> {} then [Print (SourcesUsed source_files)] else [])"

fun join :: "pystr \<Rightarrow> pystr list \<Rightarrow> pystr" where
  "join sep [] = []"
| "join sep [s] = s"
| "join sep (s # rest) = s @ sep @ join sep rest"

definition context_of :: "doc list \<Rightarrow> pystr" where
  "context_of relevant_docs = join [10, 10] (map page_content relevant_docs)"

definition prompt_one :: "pystr \<Rightarrow> pystr \<Rightarrow> pystr" where
  "prompt_one context question =
     lit ''Answer the question based only on the following context from a regulatory document:''
       @ [10, 10] @ lit ''Context:'' @ [10] @ context @ [10, 10] @ lit ''Question: '' @ question
       @ [10, 10] @ lit ''Answer:''"


section \<open>The question on the console (\<open>legal_analyst_tool\<close>, lines 19 to 33)\<close>

text \<open>The code points for which \<open>str.isspace\<close> holds; \<open>str.strip()\<close> removes them at both ends.\<close>

definition isspace :: "nat \<Rightarrow> bool" where
  "isspace c =
     (c \<in> {9, 10, 11, 12, 13, 28, 29, 30, 31, 32, 133, 160, 5760, 8232, 8233, 8239, 8287, 12288}
      \<or> (8192 \<le> c \<and> c \<le> 8202))"

definition strip :: "pystr \<Rightarrow> pystr" where
  "strip s = rev (dropWhile isspace (rev (dropWhile isspace s)))"

text \<open>
  \<open>str.upper()\<close> on the letters a to z. The result is only compared with \<open>Y\<close> and \<open>N\<close>,
  and no other code point has one of these as its upper case.
\<close>

definition upper :: "pystr \<Rightarrow> pystr" where
  "upper s = map (\<lambda>c. if 97 \<le> c \<and> c \<le> 122 then c - 32 else c) s"

text \<open>
  The loop \<open>while True\<close> around \<open>input\<close>, over the lines the console still has; at its end
  \<open>input\<close> raises \<open>EOFError\<close>.
\<close>

fun ask_keep :: "pystr list \<Rightarrow> (exn + bool) \<times> event list" where
  "ask_keep [] = (Inl EOFError, [])"
| "ask_keep (line # rest) =
     (let response = upper (strip line)
      in if response \<in> {lit ''Y'', lit ''N''} then (Inr (response = lit ''Y''), [])
         else (case ask_keep rest of (r, evs) \<Rightarrow> (r, Print PleaseEnterYOrN # evs)))"

section \<open>\<open>legal_analyst_tool\<close>\<close>

text \<open>Sequencing of steps that may raise, log events and change the store directory.\<close>

definition seq ::
  "(exn + 'a) \<times> event list \<times> 's \<Rightarrow> ('a \<Rightarrow> 's \<Rightarrow> (exn + 'b) \<times> event list \<times> 's)
     \<Rightarrow> (exn + 'b) \<times> event list \<times> 's" where
  "seq m f =
     (case m of
        (Inl e, evs, s) \<Rightarrow> (Inl e, evs, s)
      | (Inr a, evs, s) \<Rightarrow> (case f a s of (r, evs1, s1) \<Rightarrow> (r, evs @ evs1, s1)))"

text \<open>Lines 16 to 64: the result is \<open>use_existing_db\<close> as the rest of the function reads it.\<close>

definition prepare_store ::
  "ext \<Rightarrow> bool option \<Rightarrow> collection fs \<Rightarrow> (exn + bool option) \<times> event list \<times> collection fs" where
  "prepare_store x use_existing_db fs =
     (if path_exists fs CHROMA_DB_DIR then
        seq (case use_existing_db of
               Some b \<Rightarrow> (Inr b, [], fs)
             | None \<Rightarrow>
                 (case ask_keep (stdin x) of
                    (r, evs) \<Rightarrow> (r, Print ExistingDatabaseDetected # evs, fs)))
          (\<lambda>keep fs1.
             if keep then (Inr (Some keep), [Print KeepingExistingDatabase], fs1)
             else (case delete_database (rm x) (rn x) (now x) fs1 of
                     (Inl e, evs, fs2) \<Rightarrow> (Inl e, evs, fs2)
                   | (Inr u, evs, fs2) \<Rightarrow> (Inr (Some keep), evs, fs2)))
      else (Inr use_existing_db, [Print NoExistingDatabaseFound], fs))"

text \<open>Lines 66 to 80: the chunks of the document and their ids.\<close>

definition load_chunks ::
  "ext \<Rightarrow> pystr \<Rightarrow> collection fs \<Rightarrow> (exn + doc list \<times> pystr list) \<times> event list \<times> collection fs" where
  "load_chunks x pdf_file_path fs =
     (case load x pdf_file_path of
        Inl e \<Rightarrow> (Inl e, [], fs)
      | Inr documents \<Rightarrow>
          (let chunks = split_documents x documents
           in case chunk_ids_of (hashlib_sha256 x) chunks of
                Inl e \<Rightarrow> (Inl e, [Print (CreatedChunks (length chunks))], fs)
              | Inr chunk_ids \<Rightarrow>
                  (Inr (chunks, chunk_ids), [Print (CreatedChunks (length chunks))], fs)))"

definition legal_analyst_tool ::
  "ext \<Rightarrow> pystr \<Rightarrow> pystr \<Rightarrow> bool option \<Rightarrow> bool \<Rightarrow> collection fs
     \<Rightarrow> (exn + pystr) \<times> event list \<times> collection fs" where
  "legal_analyst_tool x pdf_file_path question use_existing_db filter_by_current_pdf fs =
     seq (prepare_store x use_existing_db fs) (\<lambda>use_existing_db1 fs1.
     seq (load_chunks x pdf_file_path fs1) (\<lambda>(chunks, chunk_ids) fs2.
     seq (ingest x use_existing_db1 chunks chunk_ids fs2) (\<lambda>c fs3.
     seq (case retrieve x c pdf_file_path question filter_by_current_pdf of
            (r, evs) \<Rightarrow> (r, evs, fs3)) (\<lambda>relevant_docs fs4.
       (llm_invoke x (prompt_one (context_of relevant_docs) question),
        sources_used relevant_docs, fs4)))))"

section \<open>\<open>query_all_pdfs\<close>\<close>






section \<open>A run in which nothing outside the program fails\<close>

text \<open>
  A digest function of 32 bytes to run the examples with: the first 32 bytes hashed,
  filled up with zeros. The theorems hold for every digest function.
\<close>

definition first32 :: digest where
  "first32 bs = take 32 (bs @ replicate 32 0)"

text \<open>
  Every file operation succeeds, the console is at its end, the loader finds no page, and
  the store ranks its entries in the order of their insertion. The examples below start
  from it and change what they need.
\<close>

definition quiet :: ext where
  "quiet = \<lparr>hashlib_sha256 = first32,
            rm = (\<lambda>attempt. Removed), rn = None, now = 0, stdin = [],
            load = (\<lambda>p. Inr []), split_documents = (\<lambda>documents. documents),
            open_raises = None, get_raises = None, embed_raises = None, search_raises = None,
            rank = (\<lambda>c question. map snd c), llm_invoke = (\<lambda>prompt. Inr [])\<rparr>"

text \<open>Two chunks of one document, and their ids under \<open>first32\<close>.\<close>

definition chunk_alpha :: doc where
  "chunk_alpha = \<lparr>page_content = lit ''alpha'', source = Some (lit ''docs/a.pdf'')\<rparr>"

definition chunk_beta :: doc where
  "chunk_beta = \<lparr>page_content = lit ''beta'', source = Some (lit ''docs/a.pdf'')\<rparr>"

text \<open>A chunk of another document with the text of \<open>chunk_alpha\<close>.\<close>

definition chunk_alpha_again :: doc where
  "chunk_alpha_again = \<lparr>page_content = lit ''alpha'', source = Some (lit ''docs/b.pdf'')\<rparr>"

definition id_alpha :: pystr where
  "id_alpha = lit ''616c706861000000''"

definition id_beta :: pystr where
  "id_beta = lit ''6265746100000000''"

text \<open>A chunk of a document whose file name ends with the name of another one.\<close>

definition chunk_old :: doc where
  "chunk_old = \<lparr>page_content = lit ''gamma'', source = Some (lit ''docs/old_regulation.pdf'')\<rparr>"

definition id_old :: pystr where
  "id_old = lit ''67616d6d61000000''"

text \<open>A chunk whose metadata has no \<open>source\<close> entry.\<close>

definition chunk_bare :: doc where
  "chunk_bare = \<lparr>page_content = lit ''delta'', source = None\<rparr>"

definition id_bare :: pystr where
  "id_bare = lit ''64656c7461000000''"



text \<open>The sizes among the outcomes of \<open>getsize\<close>.\<close>

definition readable :: "(exn + nat) list \<Rightarrow> nat list" where
  "readable rs = concat (map (\<lambda>r. case r of Inl e \<Rightarrow> [] | Inr n \<Rightarrow> [n]) rs)"

section \<open>Fingerprints: facts about the digest\<close>

lemma length_hexdigest: "length (hexdigest bs) = 2 * length bs"
  by (induction bs) (simp_all add: hexdigest_def)

lemma hex_digit_mem: "hex_digit b \<in> set hex_digits"
proof -
  have "unat (b AND 15) \<le> unat (15 :: u8)"
    by (rule word_and_le1 [THEN word_le_nat_alt [THEN iffD1]])
  then have "unat (b AND 15) < length hex_digits"
    by (simp add: hex_digits_def lit_def)
  then show ?thesis
    unfolding hex_digit_def by (rule nth_mem)
qed

lemma set_hexdigest: "set (hexdigest bs) \<subseteq> set hex_digits"
  by (induction bs) (simp_all add: hexdigest_def hex_digit_mem)

lemma encode_total: "\<forall>c\<in>set s. \<not> is_surrogate c \<Longrightarrow> \<exists>bs. encode s = Inr bs"
  by (induction s) (auto simp: utf8_char_def)

lemma encode_error:
  "encode s = Inl e \<Longrightarrow>
     e = UnicodeEncodeError surrogates_not_allowed \<and> (\<exists>c\<in>set s. is_surrogate c)"
  by (induction s) (auto simp: utf8_char_def split: if_splits sum.splits)

lemma length_first32: "length (first32 bs) = 32"
  by (simp add: first32_def)

section \<open>Claims about the fingerprint\<close>

text \<open>
  C3, as the code has it. For every chunk text without a surrogate code point, the empty
  text included, \<open>str.encode()\<close> yields its UTF-8 bytes and the id of the chunk is the
  first 16 characters of the hexadecimal digest of these bytes: 16 characters, each one of
  \<open>0123456789abcdef\<close>, for a digest of 32 bytes as SHA-256 computes it. The id is a
  function of the text alone.
\<close>

theorem chunk_id_sha256_prefix:
  assumes "\<forall>c\<in>set text. \<not> is_surrogate c"
    and "\<forall>bs. length (sha256 bs) = 32"
  shows "\<exists>bs. encode text = Inr bs
           \<and> chunk_id sha256 text = Inr (take 16 (hexdigest (sha256 bs)))
           \<and> length (take 16 (hexdigest (sha256 bs))) = 16
           \<and> set (take 16 (hexdigest (sha256 bs))) \<subseteq> set hex_digits"
proof -
  from assms(1) obtain bs where bs: "encode text = Inr bs"
    using encode_total by blast
  have "length (hexdigest (sha256 bs)) = 64"
    using assms(2) by (simp add: length_hexdigest)
  then have len: "length (take 16 (hexdigest (sha256 bs))) = 16"
    by simp
  have "set (take 16 (hexdigest (sha256 bs))) \<subseteq> set (hexdigest (sha256 bs))"
    by (rule set_take_subset)
  then have hex: "set (take 16 (hexdigest (sha256 bs))) \<subseteq> set hex_digits"
    using set_hexdigest by blast
  from bs len hex show ?thesis
    by (simp add: chunk_id_def)
qed

text \<open>The theorem at the text \<open>A\<close>, e acute, euro sign: one, two and three bytes.\<close>

theorem chunk_id_sha256_prefix_witness:
  "encode [0x41, 0xE9, 0x20AC] = Inr [0x41, 0xC3, 0xA9, 0xE2, 0x82, 0xAC]
     \<and> chunk_id first32 [0x41, 0xE9, 0x20AC]
         = Inr (take 16 (hexdigest (first32 [0x41, 0xC3, 0xA9, 0xE2, 0x82, 0xAC])))
     \<and> length (take 16 (hexdigest (first32 [0x41, 0xC3, 0xA9, 0xE2, 0x82, 0xAC]))) = 16"
proof -
  have enc: "encode [0x41, 0xE9, 0x20AC] = Inr [0x41, 0xC3, 0xA9, 0xE2, 0x82, 0xAC]"
    by (simp add: utf8_char_def is_surrogate_def)
  have sur: "\<forall>c\<in>set [0x41, 0xE9, 0x20AC]. \<not> is_surrogate c"
    by (simp add: is_surrogate_def)
  have len: "\<forall>bs. length (first32 bs) = 32"
    by (simp add: length_first32)
  from chunk_id_sha256_prefix [OF sur len] enc show ?thesis
    by simp
qed

text \<open>
  C3 as stated fails: a text that holds a lone surrogate, here U+D800 alone, has no UTF-8
  encoding, \<open>encode\<close> raises and no id is computed, whatever the digest function.
\<close>

theorem chunk_id_surrogate_counterexample:
  "chunk_id first32 [0xD800] = Inl (UnicodeEncodeError surrogates_not_allowed)"
  by (simp add: chunk_id_def utf8_char_def is_surrogate_def)

section \<open>The accumulate branch: what it selects and returns\<close>

lemma chunk_ids_alpha_beta:
  "chunk_ids_of first32 [chunk_alpha, chunk_beta] = Inr [id_alpha, id_beta]"
  by code_simp

lemma chunk_ids_alpha_alpha:
  "chunk_ids_of first32 [chunk_alpha, chunk_alpha_again] = Inr [id_alpha, id_alpha]"
  by code_simp

lemma id_alpha_neq_beta: "id_alpha \<noteq> id_beta"
  by (simp add: id_alpha_def id_beta_def lit_def)

lemma quiet_simps:
  "open_raises quiet = None" "get_raises quiet = None" "embed_raises quiet = None"
  "search_raises quiet = None" "hashlib_sha256 quiet = first32"
  by (simp_all add: quiet_def)

lemma select_new_zip:
  "select_new chunks chunk_ids E =
     (map fst (filter (\<lambda>p. snd p \<notin> E) (zip chunks chunk_ids)),
      map snd (filter (\<lambda>p. snd p \<notin> E) (zip chunks chunk_ids)))"
  by (induction chunks chunk_ids E rule: select_new.induct) (simp_all split: prod.splits)

lemma chunk_ids_of_all2:
  "chunk_ids_of H chunks = Inr chunk_ids \<Longrightarrow>
     list_all2 (\<lambda>c i. chunk_id H (page_content c) = Inr i) chunks chunk_ids"
  by (induction chunks arbitrary: chunk_ids) (auto split: sum.splits)

lemma set_get_by_ids: "set (get_by_ids stored ids) = fst ` set stored \<inter> set ids"
  by (auto simp: get_by_ids_def)

lemma filter_zip_snd:
  "length xs = length ys \<Longrightarrow>
     map snd (filter (\<lambda>p. P (snd p)) (zip xs ys)) = filter P ys"
  by (induction xs ys rule: list_induct2) simp_all

lemma length_filter_compl:
  "int (length xs) - int (length (filter (\<lambda>x. \<not> P x) xs)) = int (length (filter P xs))"
  using sum_length_filter_compl [of P xs] by simp

lemma zip_map_fst_snd_filter: "zip (map fst (filter P ps)) (map snd (filter P ps)) = filter P ps"
  by (simp add: zip_map_fst_snd)

lemma list_all2_filter_zip:
  "list_all2 R xs ys \<Longrightarrow>
     list_all2 R (map fst (filter P (zip xs ys))) (map snd (filter P (zip xs ys)))"
  by (induction xs ys rule: list_all2_induct) simp_all

lemma accumulate_eq:
  assumes "open_raises x = None"
    and "existing_ids_of (get_raises x) stored chunk_ids = Inr E"
    and "embed_raises x = None"
    and "ncs = map fst (filter (\<lambda>p. snd p \<notin> E) (zip chunks chunk_ids))"
    and "nids = map snd (filter (\<lambda>p. snd p \<notin> E) (zip chunks chunk_ids))"
  shows "accumulate x stored chunks chunk_ids =
           (Inr \<lparr>chunks_before = length stored, existing_ids = E,
                 new_chunks = ncs, new_chunk_ids = nids,
                 duplicates_skipped = int (length chunks) - int (length ncs),
                 add_documents_call = (if ncs = [] then None else Some (ncs, nids)),
                 vectorstore = (if ncs = [] then stored else add_documents stored (zip nids ncs))\<rparr>,
            if ncs = [] then [Print (AllChunksAlreadyExist (length chunks))]
            else if 0 < int (length chunks) - int (length ncs)
              then [Print (DuplicateChunksDetected (nat (int (length chunks) - int (length ncs))))]
              else [])"
  using assms by (simp add: accumulate_def select_new_zip Let_def)

lemma accumulate_returns:
  assumes "open_raises x = None"
    and "existing_ids_of (get_raises x) stored chunk_ids = Inr E"
    and "embed_raises x = None"
    and "length chunk_ids = length chunks"
  shows "\<exists>a evs. accumulate x stored chunks chunk_ids = (Inr a, evs)
           \<and> existing_ids a = E
           \<and> zip (new_chunks a) (new_chunk_ids a) = filter (\<lambda>p. snd p \<notin> E) (zip chunks chunk_ids)
           \<and> new_chunk_ids a = filter (\<lambda>i. i \<notin> E) chunk_ids
           \<and> duplicates_skipped a = int (length (filter (\<lambda>i. i \<in> E) chunk_ids))
           \<and> duplicates_skipped a + int (length (new_chunks a)) = int (length chunks)
           \<and> add_documents_call a
                = (if new_chunks a = [] then None else Some (new_chunks a, new_chunk_ids a))
           \<and> vectorstore a
                = (if new_chunks a = [] then stored
                   else add_documents stored (zip (new_chunk_ids a) (new_chunks a)))"
proof -
  define ps where "ps = filter (\<lambda>p. snd p \<notin> E) (zip chunks chunk_ids)"
  define ncs where "ncs = map fst ps"
  define nids where "nids = map snd ps"
  have ids: "nids = filter (\<lambda>i. i \<notin> E) chunk_ids"
    unfolding nids_def ps_def
    using filter_zip_snd [of chunks chunk_ids "\<lambda>i. i \<notin> E"] assms(4) by simp
  have "length ncs = length nids"
    by (simp add: ncs_def nids_def)
  then have skipped: "int (length chunks) - int (length ncs)
                   = int (length (filter (\<lambda>i. i \<in> E) chunk_ids))"
    using length_filter_compl [of chunk_ids "\<lambda>i. i \<in> E"] ids assms(4) by simp
  have zipped: "zip ncs nids = ps"
    by (simp add: ncs_def nids_def zip_map_fst_snd)
  note eq = accumulate_eq [OF assms(1-3) ncs_def [unfolded ps_def] nids_def [unfolded ps_def]]
  show ?thesis
    apply (subst eq)
    apply (intro exI conjI)
           apply (rule refl)
          apply simp
         apply (simp add: zipped ps_def)
        apply (simp add: ids)
       apply (simp add: skipped)
      apply simp
     apply simp
    apply simp
    done
qed


lemma chunk_ids_of_length: "chunk_ids_of H chunks = Inr chunk_ids \<Longrightarrow> length chunk_ids = length chunks"
  by (drule chunk_ids_of_all2) (simp add: list_all2_lengthD)

lemma existing_ids_of_None:
  "existing_ids_of None stored chunk_ids = Inr (fst ` set stored \<inter> set chunk_ids)"
  by (simp add: existing_ids_of_def set_get_by_ids)

lemma filter_zip_known:
  "filter (\<lambda>p. snd p \<notin> S \<inter> set ys) (zip xs ys) = filter (\<lambda>p. snd p \<notin> S) (zip xs ys)"
  by (rule filter_cong) (auto dest: set_zip_rightD)

lemma filter_known: "filter (\<lambda>i. i \<in> S \<inter> set ys) ys = filter (\<lambda>i. i \<in> S) ys"
  by (rule filter_cong) auto

lemma filter_unknown: "filter (\<lambda>i. i \<notin> S \<inter> set ys) ys = filter (\<lambda>i. i \<notin> S) ys"
  by (rule filter_cong) auto


section \<open>Claims about ingestion in accumulate mode\<close>

text \<open>
  C1, as the code has it. In accumulate mode (the store directory exists and
  \<open>use_existing_db\<close> is true), when the store opens, the membership lookup answers and
  the embedding works, the branch returns, and: the chunks passed to \<open>add_documents\<close>,
  paired with their ids, are exactly the pairs of the candidates whose id is not an id of
  the store, in their order; each id passed is the fingerprint of the chunk at its
  position; \<open>add_documents\<close> is called once with these, or not at all when none is new;
  the chunks whose id is in the store are the ones counted as skipped; and skipped plus
  inserted is the number of candidates.
\<close>

theorem accumulate_inserts_only_new:
  assumes ids: "chunk_ids_of sha256 chunks = Inr chunk_ids"
    and ok: "open_raises x = None" "get_raises x = None" "embed_raises x = None"
    and dir: "fs CHROMA_DB_DIR = Some stored"
  shows "\<exists>a evs. accumulate x stored chunks chunk_ids = (Inr a, evs)
           \<and> ingest x (Some True) chunks chunk_ids fs
               = (Inr (vectorstore a),
                  evs @ [Print (TotalChunksInDatabase (length (vectorstore a)))],
                  fs(CHROMA_DB_DIR \<mapsto> vectorstore a))
           \<and> new_chunks a
               = map fst (filter (\<lambda>p. snd p \<notin> fst ` set stored) (zip chunks chunk_ids))
           \<and> new_chunk_ids a
               = map snd (filter (\<lambda>p. snd p \<notin> fst ` set stored) (zip chunks chunk_ids))
           \<and> list_all2 (\<lambda>c i. chunk_id sha256 (page_content c) = Inr i)
                (new_chunks a) (new_chunk_ids a)
           \<and> add_documents_call a
               = (if new_chunks a = [] then None else Some (new_chunks a, new_chunk_ids a))
           \<and> duplicates_skipped a = int (length (filter (\<lambda>i. i \<in> fst ` set stored) chunk_ids))
           \<and> duplicates_skipped a + int (length (new_chunks a)) = int (length chunks)"
proof -
  let ?new = "filter (\<lambda>p. snd p \<notin> fst ` set stored) (zip chunks chunk_ids)"
  have len: "length chunk_ids = length chunks"
    using ids by (rule chunk_ids_of_length)
  have E: "existing_ids_of (get_raises x) stored chunk_ids
             = Inr (fst ` set stored \<inter> set chunk_ids)"
    using ok(2) by (simp add: existing_ids_of_None)
  from accumulate_returns [OF ok(1) E ok(3) len]
  obtain a evs where a: "accumulate x stored chunks chunk_ids = (Inr a, evs)"
    and d: "duplicates_skipped a
              = int (length (filter (\<lambda>i. i \<in> fst ` set stored \<inter> set chunk_ids) chunk_ids))"
    and s: "duplicates_skipped a + int (length (new_chunks a)) = int (length chunks)"
    and c: "add_documents_call a
              = (if new_chunks a = [] then None else Some (new_chunks a, new_chunk_ids a))"
    by blast
  have eq: "accumulate x stored chunks chunk_ids
              = (Inr \<lparr>chunks_before = length stored,
                      existing_ids = fst ` set stored \<inter> set chunk_ids,
                      new_chunks = map fst ?new, new_chunk_ids = map snd ?new,
                      duplicates_skipped = int (length chunks) - int (length (map fst ?new)),
                      add_documents_call =
                        (if map fst ?new = [] then None else Some (map fst ?new, map snd ?new)),
                      vectorstore =
                        (if map fst ?new = [] then stored
                         else add_documents stored (zip (map snd ?new) (map fst ?new)))\<rparr>,
                 if map fst ?new = [] then [Print (AllChunksAlreadyExist (length chunks))]
                 else if 0 < int (length chunks) - int (length (map fst ?new))
                   then [Print (DuplicateChunksDetected
                                  (nat (int (length chunks) - int (length (map fst ?new)))))]
                   else [])"
    by (rule accumulate_eq [OF ok(1) E ok(3)]) (simp_all only: filter_zip_known)
  have nc: "new_chunks a = map fst ?new" and ni: "new_chunk_ids a = map snd ?new"
    using a eq by auto
  have d': "duplicates_skipped a = int (length (filter (\<lambda>i. i \<in> fst ` set stored) chunk_ids))"
    using d by (simp only: filter_known)
  have "list_all2 (\<lambda>c i. chunk_id sha256 (page_content c) = Inr i) chunks chunk_ids"
    using ids by (rule chunk_ids_of_all2)
  then have m: "list_all2 (\<lambda>c i. chunk_id sha256 (page_content c) = Inr i)
                  (new_chunks a) (new_chunk_ids a)"
    unfolding nc ni by (rule list_all2_filter_zip)
  have i: "ingest x (Some True) chunks chunk_ids fs
             = (Inr (vectorstore a),
                evs @ [Print (TotalChunksInDatabase (length (vectorstore a)))],
                fs(CHROMA_DB_DIR \<mapsto> vectorstore a))"
    using a dir by (simp add: ingest_def)
  from a i nc ni m c d' s show ?thesis
    by blast
qed

text \<open>
  The theorem at a store that holds the chunk \<open>alpha\<close>, for the candidates \<open>alpha\<close> and
  \<open>beta\<close>: \<open>alpha\<close> is skipped, \<open>beta\<close> is passed on with its id.
\<close>

theorem accumulate_inserts_only_new_witness:
  "chunk_ids_of first32 [chunk_alpha, chunk_beta] = Inr [id_alpha, id_beta]
   \<and> (\<exists>a evs. accumulate quiet [(id_alpha, chunk_alpha)] [chunk_alpha, chunk_beta]
                  [id_alpha, id_beta] = (Inr a, evs)
        \<and> new_chunks a = [chunk_beta]
        \<and> new_chunk_ids a = [id_beta]
        \<and> add_documents_call a = Some ([chunk_beta], [id_beta])
        \<and> duplicates_skipped a = 1
        \<and> duplicates_skipped a + int (length (new_chunks a)) = 2)"
proof -
  have dir: "(Map.empty(CHROMA_DB_DIR \<mapsto> [(id_alpha, chunk_alpha)])) CHROMA_DB_DIR
               = Some [(id_alpha, chunk_alpha)]"
    by simp
  from accumulate_inserts_only_new
    [where fs = "Map.empty(CHROMA_DB_DIR \<mapsto> [(id_alpha, chunk_alpha)])",
     OF chunk_ids_alpha_beta quiet_simps(1) quiet_simps(2) quiet_simps(3) dir]
  show ?thesis
    using id_alpha_neq_beta chunk_ids_alpha_beta by auto
qed

text \<open>
  C1 as stated fails when the lookup raises: the handler takes the empty set, so the chunk
  \<open>alpha\<close>, whose id is an id of the store, is not skipped; it is passed to \<open>add_documents\<close>
  with the rest, and no chunk is counted as a duplicate.
\<close>

theorem accumulate_lookup_failure_counterexample:
  "accumulate (quiet\<lparr>get_raises := Some (Exception (lit ''database is locked''))\<rparr>)
     [(id_alpha, chunk_alpha)] [chunk_alpha, chunk_beta] [id_alpha, id_beta]
   = (Inr \<lparr>chunks_before = 1, existing_ids = {},
           new_chunks = [chunk_alpha, chunk_beta], new_chunk_ids = [id_alpha, id_beta],
           duplicates_skipped = 0,
           add_documents_call = Some ([chunk_alpha, chunk_beta], [id_alpha, id_beta]),
           vectorstore = [(id_alpha, chunk_alpha), (id_beta, chunk_beta)]\<rparr>, [])"
  by (simp add: accumulate_def quiet_def existing_ids_of_def id_alpha_neq_beta [symmetric])

lemma select_new_all_known:
  "set chunk_ids \<subseteq> E \<Longrightarrow> filter (\<lambda>p. snd p \<notin> E) (zip chunks chunk_ids) = []"
  by (auto simp: filter_empty_conv dest: set_zip_rightD)




section \<open>Claims about the uniqueness of ids\<close>

lemma add_documents_ids:
  "fst ` set (add_documents c ps) = fst ` set c \<union> fst ` set ps"
  by (induction c ps rule: add_documents.induct) auto

lemma add_documents_distinct:
  "distinct (map fst c) \<Longrightarrow> distinct (map fst (add_documents c ps))"
  by (induction c ps rule: add_documents.induct) auto

text \<open>
  C7, as the code has it. When the store opens, the lookup answers and the embedding works,
  the ids passed to \<open>add_documents\<close> are the candidates' ids that are not ids of the store,
  in their order and as often as they occur: none of them is an id of the store, and they
  are pairwise distinct when the ids of the candidates are. The store adds an entry only
  under an id it does not hold, so its ids stay pairwise distinct.
\<close>

theorem accumulate_batch_ids:
  assumes ids: "chunk_ids_of sha256 chunks = Inr chunk_ids"
    and ok: "open_raises x = None" "get_raises x = None" "embed_raises x = None"
  shows "\<exists>a evs. accumulate x stored chunks chunk_ids = (Inr a, evs)
           \<and> new_chunk_ids a = filter (\<lambda>i. i \<notin> fst ` set stored) chunk_ids
           \<and> set (new_chunk_ids a) \<inter> fst ` set stored = {}
           \<and> (distinct chunk_ids \<longrightarrow> distinct (new_chunk_ids a))
           \<and> (distinct (map fst stored) \<longrightarrow> distinct (map fst (vectorstore a)))"
proof -
  have len: "length chunk_ids = length chunks"
    using ids by (rule chunk_ids_of_length)
  have E: "existing_ids_of (get_raises x) stored chunk_ids
             = Inr (fst ` set stored \<inter> set chunk_ids)"
    using ok(2) by (simp add: existing_ids_of_None)
  from accumulate_returns [OF ok(1) E ok(3) len]
  obtain a evs where a: "accumulate x stored chunks chunk_ids = (Inr a, evs)"
    and n: "new_chunk_ids a = filter (\<lambda>i. i \<notin> fst ` set stored \<inter> set chunk_ids) chunk_ids"
    and v: "vectorstore a
              = (if new_chunks a = [] then stored
                 else add_documents stored (zip (new_chunk_ids a) (new_chunks a)))"
    by blast
  have n': "new_chunk_ids a = filter (\<lambda>i. i \<notin> fst ` set stored) chunk_ids"
    using n by (simp only: filter_unknown)
  have disj: "set (new_chunk_ids a) \<inter> fst ` set stored = {}"
    unfolding n' by auto
  have d1: "distinct chunk_ids \<longrightarrow> distinct (new_chunk_ids a)"
    unfolding n' by simp
  have d2: "distinct (map fst stored) \<longrightarrow> distinct (map fst (vectorstore a))"
    unfolding v by (simp add: add_documents_distinct)
  from a n' disj d1 d2 show ?thesis
    by auto
qed

text \<open>The theorem at a store that holds \<open>alpha\<close>, for the candidates \<open>alpha\<close> and \<open>beta\<close>.\<close>

theorem accumulate_batch_ids_witness:
  "chunk_ids_of first32 [chunk_alpha, chunk_beta] = Inr [id_alpha, id_beta]
   \<and> (\<exists>a evs. accumulate quiet [(id_alpha, chunk_alpha)] [chunk_alpha, chunk_beta]
                  [id_alpha, id_beta] = (Inr a, evs)
        \<and> new_chunk_ids a = [id_beta]
        \<and> distinct (new_chunk_ids a)
        \<and> distinct (map fst (vectorstore a)))"
proof -
  from accumulate_batch_ids
    [where stored = "[(id_alpha, chunk_alpha)]",
     OF chunk_ids_alpha_beta quiet_simps(1) quiet_simps(2) quiet_simps(3)]
  show ?thesis
    using id_alpha_neq_beta chunk_ids_alpha_beta by auto
qed

text \<open>
  C7 as stated fails for two chunks of identical content that the store does not hold:
  they have one id, the code does not compare the candidates with each other, and the id
  is passed to \<open>add_documents\<close> twice in one call.
\<close>

theorem accumulate_same_content_twice_counterexample:
  "chunk_alpha \<noteq> chunk_alpha_again
   \<and> chunk_ids_of first32 [chunk_alpha, chunk_alpha_again] = Inr [id_alpha, id_alpha]
   \<and> accumulate quiet [] [chunk_alpha, chunk_alpha_again] [id_alpha, id_alpha]
      = (Inr \<lparr>chunks_before = 0, existing_ids = {},
              new_chunks = [chunk_alpha, chunk_alpha_again], new_chunk_ids = [id_alpha, id_alpha],
              duplicates_skipped = 0,
              add_documents_call = Some ([chunk_alpha, chunk_alpha_again], [id_alpha, id_alpha]),
              vectorstore = [(id_alpha, chunk_alpha)]\<rparr>, [])
   \<and> \<not> distinct [id_alpha, id_alpha]"
  using chunk_ids_alpha_alpha
  by (simp add: accumulate_def quiet_def existing_ids_of_def get_by_ids_def
        chunk_alpha_def chunk_alpha_again_def lit_def)

section \<open>Claims about failures\<close>

lemma ingest_open_raises:
  "open_raises x = Some e \<Longrightarrow> \<exists>evs. ingest x u chunks chunk_ids fs = (Inl e, evs, fs)"
  by (simp add: ingest_def accumulate_def from_documents_def split: option.splits)

lemma ingest_fresh_embed_raises:
  assumes "open_raises x = None" "embed_raises x = Some e"
    and "u \<noteq> Some True \<or> fs CHROMA_DB_DIR = None"
  shows "\<exists>evs fs1. ingest x u chunks chunk_ids fs = (Inl e, evs, fs1)"
  using assms by (auto simp: ingest_def from_documents_def Let_def split: option.splits)

lemma tool_after_prepare:
  assumes "prepare_store x u fs = (Inr u1, evs1, fs1)"
  shows "legal_analyst_tool x pdf q u f fs =
     (case load_chunks x pdf fs1 of
        (Inl e, evs2, fs2) \<Rightarrow> (Inl e, evs1 @ evs2, fs2)
      | (Inr (chunks, chunk_ids), evs2, fs2) \<Rightarrow>
          (case ingest x u1 chunks chunk_ids fs2 of
             (Inl e, evs3, fs3) \<Rightarrow> (Inl e, evs1 @ evs2 @ evs3, fs3)
           | (Inr c, evs3, fs3) \<Rightarrow>
               (case retrieve x c pdf q f of
                  (Inl e, evs4) \<Rightarrow> (Inl e, evs1 @ evs2 @ evs3 @ evs4, fs3)
                | (Inr relevant_docs, evs4) \<Rightarrow>
                    (llm_invoke x (prompt_one (context_of relevant_docs) q),
                     evs1 @ evs2 @ evs3 @ evs4 @ sources_used relevant_docs, fs3))))"
  using assms
  by (simp add: legal_analyst_tool_def seq_def split: prod.splits sum.splits)

lemma tool_prepare_fails:
  assumes "prepare_store x u fs = (Inl e, evs1, fs1)"
  shows "legal_analyst_tool x pdf q u f fs = (Inl e, evs1, fs1)"
  using assms by (simp add: legal_analyst_tool_def seq_def)

lemma accumulate_lookup_swallowed:
  assumes "open_raises x = None" "get_raises x = Some e" "is_Exception e"
    and "embed_raises x = None" "length chunk_ids = length chunks"
  shows "\<exists>a evs. accumulate x stored chunks chunk_ids = (Inr a, evs)
           \<and> existing_ids a = {} \<and> new_chunks a = chunks \<and> new_chunk_ids a = chunk_ids
           \<and> duplicates_skipped a = 0
           \<and> vectorstore a = add_documents stored (zip chunk_ids chunks)"
proof -
  have E: "existing_ids_of (get_raises x) stored chunk_ids = Inr {}"
    using assms(2,3) by (simp add: existing_ids_of_def)
  have "accumulate x stored chunks chunk_ids
          = (Inr \<lparr>chunks_before = length stored, existing_ids = {},
                  new_chunks = chunks, new_chunk_ids = chunk_ids,
                  duplicates_skipped = int (length chunks) - int (length chunks),
                  add_documents_call = (if chunks = [] then None else Some (chunks, chunk_ids)),
                  vectorstore =
                    (if chunks = [] then stored else add_documents stored (zip chunk_ids chunks))\<rparr>,
             if chunks = [] then [Print (AllChunksAlreadyExist (length chunks))]
             else if 0 < int (length chunks) - int (length chunks)
               then [Print (DuplicateChunksDetected (nat (int (length chunks) - int (length chunks))))]
               else [])"
    by (rule accumulate_eq [OF assms(1) E assms(4)]) (simp_all add: assms(5))
  then show ?thesis
    by auto
qed

text \<open>
  C6, as the code has it. A failure of the preparation of the store (lines 16 to 64) ends
  the tool with that exception. After the preparation, an exception of the loader, of the
  encoding of a chunk, of the opening of the store, of the embedding (in a fresh store),
  of the similarity search or of the language model is what the tool ends with. An
  \<open>Exception\<close> of the membership lookup is not: in accumulate mode the branch returns with
  the empty set of existing ids, every candidate chunk is passed on for insertion under
  its id, and none is counted as a duplicate.
\<close>

theorem tool_failures_propagate_but_lookup:
  "(prepare_store x u fs = (Inl e, evs_prep, fs_prep) \<longrightarrow>
      legal_analyst_tool x pdf q u f fs = (Inl e, evs_prep, fs_prep))
   \<and> (prepare_store x u fs = (Inr keep, evs_prep, fs_prep) \<longrightarrow>
        (load x pdf = Inl e \<longrightarrow> fst (legal_analyst_tool x pdf q u f fs) = Inl e)
      \<and> (load x pdf = Inr documents
           \<and> chunk_ids_of (hashlib_sha256 x) (split_documents x documents) = Inl e \<longrightarrow>
          fst (legal_analyst_tool x pdf q u f fs) = Inl e)
      \<and> (load x pdf = Inr documents
           \<and> chunk_ids_of (hashlib_sha256 x) (split_documents x documents) = Inr chunk_ids \<longrightarrow>
            (open_raises x = Some e \<longrightarrow> fst (legal_analyst_tool x pdf q u f fs) = Inl e)
          \<and> (open_raises x = None \<and> embed_raises x = Some e
               \<and> (keep \<noteq> Some True \<or> fs_prep CHROMA_DB_DIR = None) \<longrightarrow>
              fst (legal_analyst_tool x pdf q u f fs) = Inl e)
          \<and> (ingest x keep (split_documents x documents) chunk_ids fs_prep = (Inr c, evs_ing, fs_ing) \<longrightarrow>
                (search_raises x = Some e \<longrightarrow> fst (legal_analyst_tool x pdf q u f fs) = Inl e)
              \<and> (retrieve x c pdf q f = (Inr relevant_docs, evs_ret)
                   \<and> llm_invoke x (prompt_one (context_of relevant_docs) q) = Inl e \<longrightarrow>
                  fst (legal_analyst_tool x pdf q u f fs) = Inl e))
          \<and> (keep = Some True \<and> fs_prep CHROMA_DB_DIR = Some stored \<and> open_raises x = None
               \<and> embed_raises x = None \<and> get_raises x = Some e \<and> is_Exception e \<longrightarrow>
              (\<exists>a evs. accumulate x stored (split_documents x documents) chunk_ids = (Inr a, evs)
                 \<and> existing_ids a = {}
                 \<and> new_chunks a = split_documents x documents
                 \<and> new_chunk_ids a = chunk_ids
                 \<and> duplicates_skipped a = 0
                 \<and> fst (ingest x keep (split_documents x documents) chunk_ids fs_prep)
                     = Inr (add_documents stored (zip chunk_ids (split_documents x documents)))))))"
proof (intro conjI impI)
  assume "prepare_store x u fs = (Inl e, evs_prep, fs_prep)"
  then show "legal_analyst_tool x pdf q u f fs = (Inl e, evs_prep, fs_prep)"
    by (rule tool_prepare_fails)
next
  assume prep: "prepare_store x u fs = (Inr keep, evs_prep, fs_prep)" and "load x pdf = Inl e"
  then show "fst (legal_analyst_tool x pdf q u f fs) = Inl e"
    by (simp add: tool_after_prepare [OF prep] load_chunks_def Let_def)
next
  assume prep: "prepare_store x u fs = (Inr keep, evs_prep, fs_prep)"
    and "load x pdf = Inr documents
           \<and> chunk_ids_of (hashlib_sha256 x) (split_documents x documents) = Inl e"
  then show "fst (legal_analyst_tool x pdf q u f fs) = Inl e"
    by (simp add: tool_after_prepare [OF prep] load_chunks_def Let_def)
next
  assume prep: "prepare_store x u fs = (Inr keep, evs_prep, fs_prep)"
    and l: "load x pdf = Inr documents
           \<and> chunk_ids_of (hashlib_sha256 x) (split_documents x documents) = Inr chunk_ids"
    and o: "open_raises x = Some e"
  from ingest_open_raises [OF o] obtain evs
    where "ingest x keep (split_documents x documents) chunk_ids fs_prep = (Inl e, evs, fs_prep)"
    by blast
  with l show "fst (legal_analyst_tool x pdf q u f fs) = Inl e"
    by (simp add: tool_after_prepare [OF prep] load_chunks_def Let_def)
next
  assume prep: "prepare_store x u fs = (Inr keep, evs_prep, fs_prep)"
    and l: "load x pdf = Inr documents
           \<and> chunk_ids_of (hashlib_sha256 x) (split_documents x documents) = Inr chunk_ids"
    and o: "open_raises x = None \<and> embed_raises x = Some e
               \<and> (keep \<noteq> Some True \<or> fs_prep CHROMA_DB_DIR = None)"
  from o ingest_fresh_embed_raises [of x e keep fs_prep] obtain evs fs_left
    where "ingest x keep (split_documents x documents) chunk_ids fs_prep = (Inl e, evs, fs_left)"
    by blast
  with l show "fst (legal_analyst_tool x pdf q u f fs) = Inl e"
    by (simp add: tool_after_prepare [OF prep] load_chunks_def Let_def)
next
  assume prep: "prepare_store x u fs = (Inr keep, evs_prep, fs_prep)"
    and l: "load x pdf = Inr documents
           \<and> chunk_ids_of (hashlib_sha256 x) (split_documents x documents) = Inr chunk_ids"
    and i: "ingest x keep (split_documents x documents) chunk_ids fs_prep = (Inr c, evs_ing, fs_ing)"
    and s: "search_raises x = Some e"
  then show "fst (legal_analyst_tool x pdf q u f fs) = Inl e"
    by (simp add: tool_after_prepare [OF prep] load_chunks_def retrieve_def Let_def)
next
  assume prep: "prepare_store x u fs = (Inr keep, evs_prep, fs_prep)"
    and l: "load x pdf = Inr documents
           \<and> chunk_ids_of (hashlib_sha256 x) (split_documents x documents) = Inr chunk_ids"
    and i: "ingest x keep (split_documents x documents) chunk_ids fs_prep = (Inr c, evs_ing, fs_ing)"
    and r: "retrieve x c pdf q f = (Inr relevant_docs, evs_ret)
                   \<and> llm_invoke x (prompt_one (context_of relevant_docs) q) = Inl e"
  then show "fst (legal_analyst_tool x pdf q u f fs) = Inl e"
    by (simp add: tool_after_prepare [OF prep] load_chunks_def Let_def)
next
  assume l: "load x pdf = Inr documents
           \<and> chunk_ids_of (hashlib_sha256 x) (split_documents x documents) = Inr chunk_ids"
    and g: "keep = Some True \<and> fs_prep CHROMA_DB_DIR = Some stored \<and> open_raises x = None
               \<and> embed_raises x = None \<and> get_raises x = Some e \<and> is_Exception e"
  have len: "length chunk_ids = length (split_documents x documents)"
    using l by (auto dest: chunk_ids_of_length)
  from g len accumulate_lookup_swallowed [of x e chunk_ids "split_documents x documents" stored]
  obtain a evs where a: "accumulate x stored (split_documents x documents) chunk_ids = (Inr a, evs)"
    and rest: "existing_ids a = {}" "new_chunks a = split_documents x documents"
      "new_chunk_ids a = chunk_ids" "duplicates_skipped a = 0"
      "vectorstore a = add_documents stored (zip chunk_ids (split_documents x documents))"
    by blast
  have "fst (ingest x keep (split_documents x documents) chunk_ids fs_prep)
          = Inr (add_documents stored (zip chunk_ids (split_documents x documents)))"
    using g a rest(5) by (simp add: ingest_def)
  with a rest
  show "\<exists>a evs. accumulate x stored (split_documents x documents) chunk_ids = (Inr a, evs)
                 \<and> existing_ids a = {}
                 \<and> new_chunks a = split_documents x documents
                 \<and> new_chunk_ids a = chunk_ids
                 \<and> duplicates_skipped a = 0
                 \<and> fst (ingest x keep (split_documents x documents) chunk_ids fs_prep)
                     = Inr (add_documents stored (zip chunk_ids (split_documents x documents)))"
    by blast
qed

text \<open>
  The theorem at two runs: one whose loader does not find the file, with no store yet, and
  one in accumulate mode whose lookup raises, over a store that holds \<open>alpha\<close>.
\<close>

theorem tool_failures_propagate_but_lookup_witness:
  "prepare_store (quiet\<lparr>load := (\<lambda>p. Inl (OSError (lit ''No such file'')))\<rparr>) None Map.empty
     = (Inr None, [Print NoExistingDatabaseFound], Map.empty)
   \<and> fst (legal_analyst_tool (quiet\<lparr>load := (\<lambda>p. Inl (OSError (lit ''No such file'')))\<rparr>)
            (lit ''docs/a.pdf'') (lit ''What is required?'') None True Map.empty)
      = Inl (OSError (lit ''No such file''))
   \<and> prepare_store
        (quiet\<lparr>load := (\<lambda>p. Inr [chunk_alpha, chunk_beta]),
               get_raises := Some (Exception (lit ''database is locked''))\<rparr>)
        (Some True) (Map.empty(CHROMA_DB_DIR \<mapsto> [(id_alpha, chunk_alpha)]))
     = (Inr (Some True), [Print KeepingExistingDatabase],
        Map.empty(CHROMA_DB_DIR \<mapsto> [(id_alpha, chunk_alpha)]))
   \<and> fst (ingest
            (quiet\<lparr>load := (\<lambda>p. Inr [chunk_alpha, chunk_beta]),
                   get_raises := Some (Exception (lit ''database is locked''))\<rparr>)
            (Some True) [chunk_alpha, chunk_beta] [id_alpha, id_beta]
            (Map.empty(CHROMA_DB_DIR \<mapsto> [(id_alpha, chunk_alpha)])))
      = Inr [(id_alpha, chunk_alpha), (id_beta, chunk_beta)]"
proof -
  let ?x1 = "quiet\<lparr>load := (\<lambda>p. Inl (OSError (lit ''No such file'')))\<rparr>"
  let ?x2 = "quiet\<lparr>load := (\<lambda>p. Inr [chunk_alpha, chunk_beta]),
                   get_raises := Some (Exception (lit ''database is locked''))\<rparr>"
  let ?fs = "Map.empty(CHROMA_DB_DIR \<mapsto> [(id_alpha, chunk_alpha)])"
  have p1: "prepare_store ?x1 None Map.empty
              = (Inr None, [Print NoExistingDatabaseFound], Map.empty)"
    by (simp add: prepare_store_def path_exists_def)
  have l1: "load ?x1 (lit ''docs/a.pdf'') = Inl (OSError (lit ''No such file''))"
    by simp
  have r1: "fst (legal_analyst_tool ?x1 (lit ''docs/a.pdf'') (lit ''What is required?'')
                   None True Map.empty) = Inl (OSError (lit ''No such file''))"
    using tool_failures_propagate_but_lookup
      [of ?x1 None Map.empty "OSError (lit ''No such file'')" "[Print NoExistingDatabaseFound]"
          Map.empty "lit ''docs/a.pdf''" "lit ''What is required?''" True None]
      p1 l1
    by blast 
  have p2: "prepare_store ?x2 (Some True) ?fs = (Inr (Some True), [Print KeepingExistingDatabase], ?fs)"
    by (simp add: prepare_store_def path_exists_def seq_def)
  have l2: "load ?x2 (lit ''docs/a.pdf'') = Inr [chunk_alpha, chunk_beta]
              \<and> chunk_ids_of (hashlib_sha256 ?x2) (split_documents ?x2 [chunk_alpha, chunk_beta])
                  = Inr [id_alpha, id_beta]"
    using chunk_ids_alpha_beta by (simp add: quiet_def)
  have g2: "Some True = Some True \<and> ?fs CHROMA_DB_DIR = Some [(id_alpha, chunk_alpha)]
              \<and> open_raises ?x2 = None \<and> embed_raises ?x2 = None
              \<and> get_raises ?x2 = Some (Exception (lit ''database is locked''))
              \<and> is_Exception (Exception (lit ''database is locked''))"
    by (simp add: quiet_def)
  have s2: "split_documents ?x2 [chunk_alpha, chunk_beta] = [chunk_alpha, chunk_beta]"
    by (simp add: quiet_def)
  have r2: "fst (ingest ?x2 (Some True) [chunk_alpha, chunk_beta] [id_alpha, id_beta] ?fs)
              = Inr (add_documents [(id_alpha, chunk_alpha)]
                       (zip [id_alpha, id_beta] [chunk_alpha, chunk_beta]))"
    using tool_failures_propagate_but_lookup
      [where x = ?x2 and u = "Some True" and fs = ?fs and keep = "Some True" and fs_prep = ?fs
         and evs_prep = "[Print KeepingExistingDatabase]" and pdf = "lit ''docs/a.pdf''"
         and documents = "[chunk_alpha, chunk_beta]" and chunk_ids = "[id_alpha, id_beta]"
         and stored = "[(id_alpha, chunk_alpha)]"
         and e = "Exception (lit ''database is locked'')"]
      p2 l2 g2 s2
    by metis
  from p1 r1 p2 r2 show ?thesis
    using id_alpha_neq_beta by simp
qed

text \<open>
  C6 as stated fails at the lookup: the run below, whose lookup raises, ends with the
  answer of the language model like a run without failure; \<open>alpha\<close>, which the store holds,
  goes through insertion again.
\<close>

theorem tool_lookup_failure_counterexample:
  "legal_analyst_tool
     (quiet\<lparr>load := (\<lambda>p. Inr [chunk_alpha, chunk_beta]),
            get_raises := Some (Exception (lit ''database is locked'')),
            llm_invoke := (\<lambda>prompt. Inr (lit ''brief''))\<rparr>)
     (lit ''docs/a.pdf'') (lit ''What is required?'') (Some True) True
     (Map.empty(CHROMA_DB_DIR \<mapsto> [(id_alpha, chunk_alpha)]))
   = (Inr (lit ''brief''),
      [Print KeepingExistingDatabase, Print (CreatedChunks 2), Print (TotalChunksInDatabase 2),
       Print (SearchingOnlyCurrentPdf (lit ''a.pdf'')), Print (SourcesUsed {lit ''a.pdf''})],
      Map.empty(CHROMA_DB_DIR \<mapsto> [(id_alpha, chunk_alpha), (id_beta, chunk_beta)]))"
  using chunk_ids_alpha_beta
  by (simp add: legal_analyst_tool_def seq_def prepare_store_def path_exists_def load_chunks_def
      quiet_def ingest_def accumulate_def existing_ids_of_def retrieve_def Let_def
      sources_used_def similarity_search_def basename_def endswith_def source_or_empty_def
      chunk_alpha_def chunk_beta_def lit_def
      id_alpha_neq_beta [symmetric] split: prod.splits)

section \<open>Claims about the fresh-mode reset\<close>

lemma attempts: "[0..<max_retries] = [0, 1, 2]"
  by (simp add: max_retries_def upt_rec)

lemma backup_name_neq: "backup_name t \<noteq> CHROMA_DB_DIR"
  by (simp add: backup_name_def lit_def)

lemma str_nat_example: "str_nat 1730678400 = lit ''1730678400''"
  by (simp add: str_nat.simps lit_def)

lemma delete_removed_first:
  "rms 0 = Removed \<Longrightarrow>
     delete_database rms rns t fs
       = (Inr (), [Print DeletingExistingDatabase, GcCollect, Sleep 500,
                   CallRmtree CHROMA_DB_DIR, Print DatabaseDeleted],
          fs(CHROMA_DB_DIR := None))"
  unfolding delete_database_def attempts by (simp add: rmtree_def)

lemma delete_removed_second:
  "rms 0 = Raised e0 d0 \<Longrightarrow> is_PermissionError e0 \<Longrightarrow> rms 1 = Removed \<Longrightarrow>
     delete_database rms rns t fs
       = (Inr (), [Print DeletingExistingDatabase, GcCollect, Sleep 500,
                   CallRmtree CHROMA_DB_DIR, Print (WaitingForFileLocks 1 3), Sleep 1000,
                   CallRmtree CHROMA_DB_DIR, Print DatabaseDeleted],
          fs(CHROMA_DB_DIR := None))"
  unfolding delete_database_def attempts by (simp add: rmtree_def max_retries_def)

lemma delete_removed_third:
  "rms 0 = Raised e0 d0 \<Longrightarrow> is_PermissionError e0 \<Longrightarrow>
   rms 1 = Raised e1 d1 \<Longrightarrow> is_PermissionError e1 \<Longrightarrow> rms 2 = Removed \<Longrightarrow>
     delete_database rms rns t fs
       = (Inr (), [Print DeletingExistingDatabase, GcCollect, Sleep 500,
                   CallRmtree CHROMA_DB_DIR, Print (WaitingForFileLocks 1 3), Sleep 1000,
                   CallRmtree CHROMA_DB_DIR, Print (WaitingForFileLocks 2 3), Sleep 1000,
                   CallRmtree CHROMA_DB_DIR, Print DatabaseDeleted],
          fs(CHROMA_DB_DIR := None))"
  unfolding delete_database_def attempts by (simp add: rmtree_def max_retries_def)

lemma delete_renamed:
  "rms 0 = Raised e0 d0 \<Longrightarrow> is_PermissionError e0 \<Longrightarrow>
   rms 1 = Raised e1 d1 \<Longrightarrow> is_PermissionError e1 \<Longrightarrow>
   rms 2 = Raised e2 d2 \<Longrightarrow> is_PermissionError e2 \<Longrightarrow> rns = None \<Longrightarrow>
     delete_database rms rns t fs
       = (Inr (), [Print DeletingExistingDatabase, GcCollect, Sleep 500,
                   CallRmtree CHROMA_DB_DIR, Print (WaitingForFileLocks 1 3), Sleep 1000,
                   CallRmtree CHROMA_DB_DIR, Print (WaitingForFileLocks 2 3), Sleep 1000,
                   CallRmtree CHROMA_DB_DIR, Print CouldNotDeleteDatabase,
                   CallRename CHROMA_DB_DIR (backup_name t),
                   Print (OldDatabaseMovedTo (backup_name t))],
          fs(CHROMA_DB_DIR := None, backup_name t \<mapsto> d2))"
  using backup_name_neq [of t]
  unfolding delete_database_def attempts by (auto simp: rmtree_def max_retries_def os_rename_def)

lemma delete_fails:
  "rms 0 = Raised e0 d0 \<Longrightarrow> is_PermissionError e0 \<Longrightarrow>
   rms 1 = Raised e1 d1 \<Longrightarrow> is_PermissionError e1 \<Longrightarrow>
   rms 2 = Raised e2 d2 \<Longrightarrow> is_PermissionError e2 \<Longrightarrow> rns = Some rename_error \<Longrightarrow>
     delete_database rms rns t fs
       = (if is_Exception rename_error then Inl (Exception (cannot_delete_or_rename e2))
          else Inl rename_error,
          [Print DeletingExistingDatabase, GcCollect, Sleep 500,
           CallRmtree CHROMA_DB_DIR, Print (WaitingForFileLocks 1 3), Sleep 1000,
           CallRmtree CHROMA_DB_DIR, Print (WaitingForFileLocks 2 3), Sleep 1000,
           CallRmtree CHROMA_DB_DIR, Print CouldNotDeleteDatabase,
           CallRename CHROMA_DB_DIR (backup_name t)],
          fs(CHROMA_DB_DIR \<mapsto> d2))"
  unfolding delete_database_def attempts by (simp add: rmtree_def max_retries_def os_rename_def)

lemma delete_at_most_three_calls:
  "length (filter (\<lambda>ev. ev = CallRmtree CHROMA_DB_DIR) (fst (snd (delete_database rms rns t fs))))
     \<le> max_retries"
  unfolding delete_database_def attempts
  by (cases "rms 0"; cases "rms 1"; cases "rms 2"; cases rns)
     (simp_all add: rmtree_def max_retries_def os_rename_def)

lemma delete_other_first:
  "rms 0 = Raised e0 d0 \<Longrightarrow> \<not> is_PermissionError e0 \<Longrightarrow>
     delete_database rms rns t fs
       = (Inl e0, [Print DeletingExistingDatabase, GcCollect, Sleep 500,
                   CallRmtree CHROMA_DB_DIR],
          fs(CHROMA_DB_DIR \<mapsto> d0))"
  unfolding delete_database_def attempts by (simp add: rmtree_def max_retries_def)

lemma delete_other_second:
  "rms 0 = Raised e0 d0 \<Longrightarrow> is_PermissionError e0 \<Longrightarrow>
   rms 1 = Raised e1 d1 \<Longrightarrow> \<not> is_PermissionError e1 \<Longrightarrow>
     delete_database rms rns t fs
       = (Inl e1, [Print DeletingExistingDatabase, GcCollect, Sleep 500,
                   CallRmtree CHROMA_DB_DIR, Print (WaitingForFileLocks 1 3), Sleep 1000,
                   CallRmtree CHROMA_DB_DIR],
          fs(CHROMA_DB_DIR \<mapsto> d1))"
  unfolding delete_database_def attempts by (simp add: rmtree_def max_retries_def)

lemma delete_other_third:
  "rms 0 = Raised e0 d0 \<Longrightarrow> is_PermissionError e0 \<Longrightarrow>
   rms 1 = Raised e1 d1 \<Longrightarrow> is_PermissionError e1 \<Longrightarrow>
   rms 2 = Raised e2 d2 \<Longrightarrow> \<not> is_PermissionError e2 \<Longrightarrow>
     delete_database rms rns t fs
       = (Inl e2, [Print DeletingExistingDatabase, GcCollect, Sleep 500,
                   CallRmtree CHROMA_DB_DIR, Print (WaitingForFileLocks 1 3), Sleep 1000,
                   CallRmtree CHROMA_DB_DIR, Print (WaitingForFileLocks 2 3), Sleep 1000,
                   CallRmtree CHROMA_DB_DIR],
          fs(CHROMA_DB_DIR \<mapsto> d2))"
  unfolding delete_database_def attempts by (simp add: rmtree_def max_retries_def)

text \<open>
  C4, as the code has it. The reset calls \<open>shutil.rmtree\<close> at most 3 times, and it runs in
  one of eight ways. The first, the second or the third call removes the directory, each
  call before it having failed with a \<open>PermissionError\<close> and been followed by a wait of one
  second: the reset succeeds. Or all three calls fail with a \<open>PermissionError\<close>: the
  directory is renamed to its path followed by \<open>_backup_\<close> and the time in seconds, and the
  reset succeeds, the new path holding what the failed removals left of the directory; or
  that rename fails too, and the reset fails with an \<open>Exception\<close> whose message ends with
  the message of the last \<open>PermissionError\<close>. Or the first, the second or the third call
  fails with an exception that is no \<open>PermissionError\<close>: the reset fails with it at once,
  with no further attempt and no rename.
\<close>

theorem delete_database_retries_then_renames:
  "length (filter (\<lambda>ev. ev = CallRmtree CHROMA_DB_DIR)
             (fst (snd (delete_database rms rns t fs)))) \<le> 3
    \<and> ((rms 0 = Removed
          \<and> delete_database rms rns t fs
              = (Inr (), [Print DeletingExistingDatabase, GcCollect, Sleep 500,
                          CallRmtree CHROMA_DB_DIR, Print DatabaseDeleted],
                 fs(CHROMA_DB_DIR := None)))
       \<or> (\<exists>e0 d0. rms 0 = Raised e0 d0 \<and> is_PermissionError e0 \<and> rms 1 = Removed
          \<and> delete_database rms rns t fs
              = (Inr (), [Print DeletingExistingDatabase, GcCollect, Sleep 500,
                          CallRmtree CHROMA_DB_DIR, Print (WaitingForFileLocks 1 3), Sleep 1000,
                          CallRmtree CHROMA_DB_DIR, Print DatabaseDeleted],
                 fs(CHROMA_DB_DIR := None)))
       \<or> (\<exists>e0 d0 e1 d1. rms 0 = Raised e0 d0 \<and> is_PermissionError e0
          \<and> rms 1 = Raised e1 d1 \<and> is_PermissionError e1 \<and> rms 2 = Removed
          \<and> delete_database rms rns t fs
              = (Inr (), [Print DeletingExistingDatabase, GcCollect, Sleep 500,
                          CallRmtree CHROMA_DB_DIR, Print (WaitingForFileLocks 1 3), Sleep 1000,
                          CallRmtree CHROMA_DB_DIR, Print (WaitingForFileLocks 2 3), Sleep 1000,
                          CallRmtree CHROMA_DB_DIR, Print DatabaseDeleted],
                 fs(CHROMA_DB_DIR := None)))
       \<or> (\<exists>e0 d0 e1 d1 e2 d2. rms 0 = Raised e0 d0 \<and> is_PermissionError e0
          \<and> rms 1 = Raised e1 d1 \<and> is_PermissionError e1
          \<and> rms 2 = Raised e2 d2 \<and> is_PermissionError e2 \<and> rns = None
          \<and> delete_database rms rns t fs
              = (Inr (), [Print DeletingExistingDatabase, GcCollect, Sleep 500,
                          CallRmtree CHROMA_DB_DIR, Print (WaitingForFileLocks 1 3), Sleep 1000,
                          CallRmtree CHROMA_DB_DIR, Print (WaitingForFileLocks 2 3), Sleep 1000,
                          CallRmtree CHROMA_DB_DIR, Print CouldNotDeleteDatabase,
                          CallRename CHROMA_DB_DIR (backup_name t),
                          Print (OldDatabaseMovedTo (backup_name t))],
                 fs(CHROMA_DB_DIR := None, backup_name t \<mapsto> d2)))
       \<or> (\<exists>e0 d0 e1 d1 e2 d2 rename_error. rms 0 = Raised e0 d0 \<and> is_PermissionError e0
          \<and> rms 1 = Raised e1 d1 \<and> is_PermissionError e1
          \<and> rms 2 = Raised e2 d2 \<and> is_PermissionError e2 \<and> rns = Some rename_error
          \<and> delete_database rms rns t fs
              = (if is_Exception rename_error
                 then Inl (Exception (cannot_delete_or_rename e2)) else Inl rename_error,
                 [Print DeletingExistingDatabase, GcCollect, Sleep 500,
                  CallRmtree CHROMA_DB_DIR, Print (WaitingForFileLocks 1 3), Sleep 1000,
                  CallRmtree CHROMA_DB_DIR, Print (WaitingForFileLocks 2 3), Sleep 1000,
                  CallRmtree CHROMA_DB_DIR, Print CouldNotDeleteDatabase,
                  CallRename CHROMA_DB_DIR (backup_name t)],
                 fs(CHROMA_DB_DIR \<mapsto> d2)))
       \<or> (\<exists>e0 d0. rms 0 = Raised e0 d0 \<and> \<not> is_PermissionError e0
          \<and> delete_database rms rns t fs
              = (Inl e0, [Print DeletingExistingDatabase, GcCollect, Sleep 500,
                          CallRmtree CHROMA_DB_DIR],
                 fs(CHROMA_DB_DIR \<mapsto> d0)))
       \<or> (\<exists>e0 d0 e1 d1. rms 0 = Raised e0 d0 \<and> is_PermissionError e0
          \<and> rms 1 = Raised e1 d1 \<and> \<not> is_PermissionError e1
          \<and> delete_database rms rns t fs
              = (Inl e1, [Print DeletingExistingDatabase, GcCollect, Sleep 500,
                          CallRmtree CHROMA_DB_DIR, Print (WaitingForFileLocks 1 3), Sleep 1000,
                          CallRmtree CHROMA_DB_DIR],
                 fs(CHROMA_DB_DIR \<mapsto> d1)))
       \<or> (\<exists>e0 d0 e1 d1 e2 d2. rms 0 = Raised e0 d0 \<and> is_PermissionError e0
          \<and> rms 1 = Raised e1 d1 \<and> is_PermissionError e1
          \<and> rms 2 = Raised e2 d2 \<and> \<not> is_PermissionError e2
          \<and> delete_database rms rns t fs
              = (Inl e2, [Print DeletingExistingDatabase, GcCollect, Sleep 500,
                          CallRmtree CHROMA_DB_DIR, Print (WaitingForFileLocks 1 3), Sleep 1000,
                          CallRmtree CHROMA_DB_DIR, Print (WaitingForFileLocks 2 3), Sleep 1000,
                          CallRmtree CHROMA_DB_DIR],
                 fs(CHROMA_DB_DIR \<mapsto> d2))))"
proof (rule conjI)
  show "length (filter (\<lambda>ev. ev = CallRmtree CHROMA_DB_DIR)
                  (fst (snd (delete_database rms rns t fs)))) \<le> 3"
    using delete_at_most_three_calls [of rms rns t fs] by (simp add: max_retries_def)
next
  show "(rms 0 = Removed
          \<and> delete_database rms rns t fs
              = (Inr (), [Print DeletingExistingDatabase, GcCollect, Sleep 500,
                          CallRmtree CHROMA_DB_DIR, Print DatabaseDeleted],
                 fs(CHROMA_DB_DIR := None)))
       \<or> (\<exists>e0 d0. rms 0 = Raised e0 d0 \<and> is_PermissionError e0 \<and> rms 1 = Removed
          \<and> delete_database rms rns t fs
              = (Inr (), [Print DeletingExistingDatabase, GcCollect, Sleep 500,
                          CallRmtree CHROMA_DB_DIR, Print (WaitingForFileLocks 1 3), Sleep 1000,
                          CallRmtree CHROMA_DB_DIR, Print DatabaseDeleted],
                 fs(CHROMA_DB_DIR := None)))
       \<or> (\<exists>e0 d0 e1 d1. rms 0 = Raised e0 d0 \<and> is_PermissionError e0
          \<and> rms 1 = Raised e1 d1 \<and> is_PermissionError e1 \<and> rms 2 = Removed
          \<and> delete_database rms rns t fs
              = (Inr (), [Print DeletingExistingDatabase, GcCollect, Sleep 500,
                          CallRmtree CHROMA_DB_DIR, Print (WaitingForFileLocks 1 3), Sleep 1000,
                          CallRmtree CHROMA_DB_DIR, Print (WaitingForFileLocks 2 3), Sleep 1000,
                          CallRmtree CHROMA_DB_DIR, Print DatabaseDeleted],
                 fs(CHROMA_DB_DIR := None)))
       \<or> (\<exists>e0 d0 e1 d1 e2 d2. rms 0 = Raised e0 d0 \<and> is_PermissionError e0
          \<and> rms 1 = Raised e1 d1 \<and> is_PermissionError e1
          \<and> rms 2 = Raised e2 d2 \<and> is_PermissionError e2 \<and> rns = None
          \<and> delete_database rms rns t fs
              = (Inr (), [Print DeletingExistingDatabase, GcCollect, Sleep 500,
                          CallRmtree CHROMA_DB_DIR, Print (WaitingForFileLocks 1 3), Sleep 1000,
                          CallRmtree CHROMA_DB_DIR, Print (WaitingForFileLocks 2 3), Sleep 1000,
                          CallRmtree CHROMA_DB_DIR, Print CouldNotDeleteDatabase,
                          CallRename CHROMA_DB_DIR (backup_name t),
                          Print (OldDatabaseMovedTo (backup_name t))],
                 fs(CHROMA_DB_DIR := None, backup_name t \<mapsto> d2)))
       \<or> (\<exists>e0 d0 e1 d1 e2 d2 rename_error. rms 0 = Raised e0 d0 \<and> is_PermissionError e0
          \<and> rms 1 = Raised e1 d1 \<and> is_PermissionError e1
          \<and> rms 2 = Raised e2 d2 \<and> is_PermissionError e2 \<and> rns = Some rename_error
          \<and> delete_database rms rns t fs
              = (if is_Exception rename_error
                 then Inl (Exception (cannot_delete_or_rename e2)) else Inl rename_error,
                 [Print DeletingExistingDatabase, GcCollect, Sleep 500,
                  CallRmtree CHROMA_DB_DIR, Print (WaitingForFileLocks 1 3), Sleep 1000,
                  CallRmtree CHROMA_DB_DIR, Print (WaitingForFileLocks 2 3), Sleep 1000,
                  CallRmtree CHROMA_DB_DIR, Print CouldNotDeleteDatabase,
                  CallRename CHROMA_DB_DIR (backup_name t)],
                 fs(CHROMA_DB_DIR \<mapsto> d2)))
       \<or> (\<exists>e0 d0. rms 0 = Raised e0 d0 \<and> \<not> is_PermissionError e0
          \<and> delete_database rms rns t fs
              = (Inl e0, [Print DeletingExistingDatabase, GcCollect, Sleep 500,
                          CallRmtree CHROMA_DB_DIR],
                 fs(CHROMA_DB_DIR \<mapsto> d0)))
       \<or> (\<exists>e0 d0 e1 d1. rms 0 = Raised e0 d0 \<and> is_PermissionError e0
          \<and> rms 1 = Raised e1 d1 \<and> \<not> is_PermissionError e1
          \<and> delete_database rms rns t fs
              = (Inl e1, [Print DeletingExistingDatabase, GcCollect, Sleep 500,
                          CallRmtree CHROMA_DB_DIR, Print (WaitingForFileLocks 1 3), Sleep 1000,
                          CallRmtree CHROMA_DB_DIR],
                 fs(CHROMA_DB_DIR \<mapsto> d1)))
       \<or> (\<exists>e0 d0 e1 d1 e2 d2. rms 0 = Raised e0 d0 \<and> is_PermissionError e0
          \<and> rms 1 = Raised e1 d1 \<and> is_PermissionError e1
          \<and> rms 2 = Raised e2 d2 \<and> \<not> is_PermissionError e2
          \<and> delete_database rms rns t fs
              = (Inl e2, [Print DeletingExistingDatabase, GcCollect, Sleep 500,
                          CallRmtree CHROMA_DB_DIR, Print (WaitingForFileLocks 1 3), Sleep 1000,
                          CallRmtree CHROMA_DB_DIR, Print (WaitingForFileLocks 2 3), Sleep 1000,
                          CallRmtree CHROMA_DB_DIR],
                 fs(CHROMA_DB_DIR \<mapsto> d2)))"
  proof (cases "rms 0")
    case Removed
    then show ?thesis
      using delete_removed_first [of rms rns t fs] by simp
  next
    case r0: (Raised e0 d0)
    show ?thesis
    proof (cases "is_PermissionError e0")
      case False
      then show ?thesis
        using r0 delete_other_first [of rms e0 d0 rns t fs] by simp
    next
      case p0: True
      show ?thesis
      proof (cases "rms 1")
        case Removed
        then show ?thesis
          using r0 p0 delete_removed_second [of rms e0 d0 rns t fs] by simp
      next
        case r1: (Raised e1 d1)
        show ?thesis
        proof (cases "is_PermissionError e1")
          case False
          then show ?thesis
            using r0 p0 r1 delete_other_second [of rms e0 d0 e1 d1 rns t fs] by simp
        next
          case p1: True
          show ?thesis
          proof (cases "rms 2")
            case Removed
            then show ?thesis
              using r0 p0 r1 p1 delete_removed_third [of rms e0 d0 e1 d1 rns t fs] by simp
          next
            case r2: (Raised e2 d2)
            show ?thesis
            proof (cases "is_PermissionError e2")
              case False
              then show ?thesis
                using r0 p0 r1 p1 r2 delete_other_third [of rms e0 d0 e1 d1 e2 d2 rns t fs]
                by simp
            next
              case p2: True
              show ?thesis
              proof (cases rns)
                case None
                then show ?thesis
                  using r0 p0 r1 p1 r2 p2 delete_renamed [of rms e0 d0 e1 d1 e2 d2 rns t fs]
                  by simp
              next
                case (Some rename_error)
                then show ?thesis
                  using r0 p0 r1 p1 r2 p2
                    delete_fails [of rms e0 d0 e1 d1 e2 d2 rns rename_error t fs]
                  by simp
              qed
            qed
          qed
        qed
      qed
    qed
  qed
qed

text \<open>
  The theorem at a store that holds \<open>alpha\<close> and stays locked through all three attempts:
  once with a rename that works, once with a rename that is refused.
\<close>

theorem delete_database_retries_then_renames_witness:
  "delete_database
     (\<lambda>attempt. Raised (PermissionError (lit ''[WinError 32] file in use'')) [(id_alpha, chunk_alpha)])
     None 1730678400 (Map.empty(CHROMA_DB_DIR \<mapsto> [(id_alpha, chunk_alpha)]))
   = (Inr (),
      [Print DeletingExistingDatabase, GcCollect, Sleep 500,
       CallRmtree CHROMA_DB_DIR, Print (WaitingForFileLocks 1 3), Sleep 1000,
       CallRmtree CHROMA_DB_DIR, Print (WaitingForFileLocks 2 3), Sleep 1000,
       CallRmtree CHROMA_DB_DIR, Print CouldNotDeleteDatabase,
       CallRename CHROMA_DB_DIR (lit ''./chroma_db_backup_1730678400''),
       Print (OldDatabaseMovedTo (lit ''./chroma_db_backup_1730678400''))],
      Map.empty(lit ''./chroma_db_backup_1730678400'' \<mapsto> [(id_alpha, chunk_alpha)]))
   \<and> fst (delete_database
        (\<lambda>attempt. Raised (PermissionError (lit ''[WinError 32] file in use'')) [(id_alpha, chunk_alpha)])
        (Some (OSError (lit ''[WinError 5] access denied''))) 1730678400
        (Map.empty(CHROMA_DB_DIR \<mapsto> [(id_alpha, chunk_alpha)])))
     = Inl (Exception (lit ''Cannot delete or rename database. Please close all programs using it and try again. Error: [WinError 32] file in use''))"
proof -
  let ?rms = "\<lambda>attempt::nat. Raised (PermissionError (lit ''[WinError 32] file in use''))
                              [(id_alpha, chunk_alpha)]"
  let ?fs = "Map.empty(CHROMA_DB_DIR \<mapsto> [(id_alpha, chunk_alpha)])"
  have name: "backup_name 1730678400 = lit ''./chroma_db_backup_1730678400''"
    by (simp add: backup_name_def CHROMA_DB_DIR_def str_nat.simps lit_def)
  have dir: "CHROMA_DB_DIR \<noteq> lit ''./chroma_db_backup_1730678400''"
    by (simp add: CHROMA_DB_DIR_def lit_def)
  have msg: "cannot_delete_or_rename (PermissionError (lit ''[WinError 32] file in use''))
        = lit ''Cannot delete or rename database. Please close all programs using it and try again. Error: [WinError 32] file in use''"
    by (simp add: cannot_delete_or_rename_def lit_def)
  have a: "delete_database ?rms None 1730678400 ?fs
   = (Inr (),
      [Print DeletingExistingDatabase, GcCollect, Sleep 500,
       CallRmtree CHROMA_DB_DIR, Print (WaitingForFileLocks 1 3), Sleep 1000,
       CallRmtree CHROMA_DB_DIR, Print (WaitingForFileLocks 2 3), Sleep 1000,
       CallRmtree CHROMA_DB_DIR, Print CouldNotDeleteDatabase,
       CallRename CHROMA_DB_DIR (lit ''./chroma_db_backup_1730678400''),
       Print (OldDatabaseMovedTo (lit ''./chroma_db_backup_1730678400''))],
      Map.empty(lit ''./chroma_db_backup_1730678400'' \<mapsto> [(id_alpha, chunk_alpha)]))"
    using delete_database_retries_then_renames [of ?rms None 1730678400 ?fs] name dir
    by auto
  have b: "fst (delete_database ?rms (Some (OSError (lit ''[WinError 5] access denied''))) 1730678400 ?fs)
     = Inl (Exception (lit ''Cannot delete or rename database. Please close all programs using it and try again. Error: [WinError 32] file in use''))"
    using delete_database_retries_then_renames
      [of ?rms "Some (OSError (lit ''[WinError 5] access denied''))" 1730678400 ?fs] msg
    by auto
  from a b show ?thesis
    by simp
qed

text \<open>
  C4 as stated fails in two ways. A failure of the removal that is no \<open>PermissionError\<close>,
  here the \<open>OSError\<close> of a directory that another handle keeps from being emptied, is not
  retried and no rename is tried: the reset fails after one call. And when the three
  failed removals have deleted what they could, here everything the store held, the rename
  succeeds with a backup that holds nothing: the data is lost all the same.
\<close>

theorem delete_database_other_failure_counterexample:
  "delete_database
     (\<lambda>attempt. Raised (OSError (lit ''[WinError 145] directory not empty''))
                  [(id_alpha, chunk_alpha)])
     None 1730678400 (Map.empty(CHROMA_DB_DIR \<mapsto> [(id_alpha, chunk_alpha)]))
   = (Inl (OSError (lit ''[WinError 145] directory not empty'')),
      [Print DeletingExistingDatabase, GcCollect, Sleep 500, CallRmtree CHROMA_DB_DIR],
      Map.empty(CHROMA_DB_DIR \<mapsto> [(id_alpha, chunk_alpha)]))
   \<and> delete_database
        (\<lambda>attempt. Raised (PermissionError (lit ''[WinError 32] file in use'')) [])
        None 1730678400 (Map.empty(CHROMA_DB_DIR \<mapsto> [(id_alpha, chunk_alpha)]))
     = (Inr (),
        [Print DeletingExistingDatabase, GcCollect, Sleep 500,
         CallRmtree CHROMA_DB_DIR, Print (WaitingForFileLocks 1 3), Sleep 1000,
         CallRmtree CHROMA_DB_DIR, Print (WaitingForFileLocks 2 3), Sleep 1000,
         CallRmtree CHROMA_DB_DIR, Print CouldNotDeleteDatabase,
         CallRename CHROMA_DB_DIR (lit ''./chroma_db_backup_1730678400''),
         Print (OldDatabaseMovedTo (lit ''./chroma_db_backup_1730678400''))],
        Map.empty(lit ''./chroma_db_backup_1730678400'' \<mapsto> []))"
proof -
  have name: "backup_name 1730678400 = lit ''./chroma_db_backup_1730678400''"
    by (simp add: backup_name_def CHROMA_DB_DIR_def str_nat.simps lit_def)
  have dir: "CHROMA_DB_DIR \<noteq> lit ''./chroma_db_backup_1730678400''"
    by (simp add: CHROMA_DB_DIR_def lit_def)
  show ?thesis
    unfolding delete_database_def attempts
    using name dir by (auto simp: rmtree_def max_retries_def os_rename_def)
qed

section \<open>Claims about \<open>clear_database\<close>\<close>

text \<open>
  What \<open>clear_database\<close> does. Without a store directory it returns \<open>False\<close> and leaves
  the file system as it is. With one, it calls \<open>shutil.rmtree\<close> once: when the removal
  works it returns \<open>True\<close> and the directory is gone; when the removal raises, the
  exception is what the caller gets, and the directory stays, with what the removal left of
  it.
\<close>

lemma clear_database_result:
  "(\<not> path_exists fs CHROMA_DB_DIR \<longrightarrow> clear_database r fs = (Inr False, fs))
   \<and> (path_exists fs CHROMA_DB_DIR \<and> r = Removed \<longrightarrow>
        clear_database r fs = (Inr True, fs(CHROMA_DB_DIR := None))
        \<and> \<not> path_exists (fs(CHROMA_DB_DIR := None)) CHROMA_DB_DIR)
   \<and> (path_exists fs CHROMA_DB_DIR \<and> r = Raised e d \<longrightarrow>
        clear_database r fs = (Inl e, fs(CHROMA_DB_DIR \<mapsto> d)))"
  by (simp add: clear_database_def rmtree_def path_exists_def)

text \<open>Without a store directory, and with one that is removed.\<close>

lemma clear_database_result_examples:
  "\<not> path_exists (Map.empty :: collection fs) CHROMA_DB_DIR
   \<and> clear_database Removed (Map.empty :: collection fs) = (Inr False, Map.empty)
   \<and> path_exists (Map.empty(CHROMA_DB_DIR \<mapsto> [(id_alpha, chunk_alpha)])) CHROMA_DB_DIR
   \<and> clear_database Removed (Map.empty(CHROMA_DB_DIR \<mapsto> [(id_alpha, chunk_alpha)]))
       = (Inr True, Map.empty)"
  using clear_database_result [of "Map.empty :: collection fs" Removed]
    clear_database_result [of "Map.empty(CHROMA_DB_DIR \<mapsto> [(id_alpha, chunk_alpha)])" Removed]
  by (simp add: path_exists_def)

text \<open>
  C10. The claim, that \<open>clear_database\<close> returns \<open>True\<close> exactly when the store directory
  existed, with the directory removed, is what the code does as long as the removal works.
  The code breaks it when the directory is locked: the directory exists, the single call
  of \<open>rmtree\<close> raises \<open>PermissionError\<close>, and \<open>clear_database\<close> returns neither \<open>True\<close> nor
  \<open>False\<close> and leaves the directory in place. The reset of \<open>legal_analyst_tool\<close> makes the
  same call on the same directory, and there the lock is handled: with the same outcomes
  of \<open>rmtree\<close> it retries, renames the directory aside and succeeds.
\<close>

theorem clear_database_locked_raises:
  "path_exists (Map.empty(CHROMA_DB_DIR \<mapsto> [(id_alpha, chunk_alpha)])) CHROMA_DB_DIR
   \<and> clear_database
        (Raised (PermissionError (lit ''[WinError 32] file in use'')) [(id_alpha, chunk_alpha)])
        (Map.empty(CHROMA_DB_DIR \<mapsto> [(id_alpha, chunk_alpha)]))
      = (Inl (PermissionError (lit ''[WinError 32] file in use'')),
         Map.empty(CHROMA_DB_DIR \<mapsto> [(id_alpha, chunk_alpha)]))
   \<and> fst (delete_database
        (\<lambda>attempt. Raised (PermissionError (lit ''[WinError 32] file in use''))
                     [(id_alpha, chunk_alpha)])
        None 1730678400 (Map.empty(CHROMA_DB_DIR \<mapsto> [(id_alpha, chunk_alpha)])))
      = Inr ()"
proof -
  have "fst (delete_database
        (\<lambda>attempt. Raised (PermissionError (lit ''[WinError 32] file in use''))
                     [(id_alpha, chunk_alpha)])
        None 1730678400 (Map.empty(CHROMA_DB_DIR \<mapsto> [(id_alpha, chunk_alpha)])))
      = Inr ()"
    unfolding delete_database_def attempts
    by (simp add: rmtree_def max_retries_def os_rename_def)
  then show ?thesis
    by (simp add: clear_database_def rmtree_def path_exists_def)
qed

section \<open>Claims about retrieval\<close>

text \<open>
  C5, as the code has it. With \<open>filter_by_current_pdf\<close> set and a search that returns, the
  pool is the first 20 chunks of the ranking. The chunks kept are those of the pool whose
  source path ends with the base name of the requested file, the first 5 of them, in the
  order of the pool; every chunk returned then has such a source, and the line
  \<open>Searching only current PDF\<close> is printed. When no chunk of the pool has such a source,
  the first 5 of the pool are returned and the warning \<open>No chunks from current PDF found,
  using all chunks\<close> is printed instead, the one sign of this mode.
\<close>

theorem retrieve_single_document:
  assumes "search_raises x = None"
  shows "\<exists>docs evs. retrieve x c pdf_file_path question True = (Inr docs, evs)
     \<and> length docs \<le> 5
     \<and> set docs \<subseteq> set (take 20 (rank x c question))
     \<and> (if filter (\<lambda>d. endswith (source_or_empty d) (basename pdf_file_path))
              (take 20 (rank x c question)) = []
         then docs = take 5 (take 20 (rank x c question))
              \<and> evs = [Print NoChunksFromCurrentPdf]
         else docs = take 5 (filter (\<lambda>d. endswith (source_or_empty d) (basename pdf_file_path))
                               (take 20 (rank x c question)))
              \<and> evs = [Print (SearchingOnlyCurrentPdf (basename pdf_file_path))]
              \<and> (\<forall>d\<in>set docs. endswith (source_or_empty d) (basename pdf_file_path)))"
proof -
  define pool where "pool = take 20 (rank x c question)"
  define matching
    where "matching = filter (\<lambda>d. endswith (source_or_empty d) (basename pdf_file_path)) pool"
  have eq: "retrieve x c pdf_file_path question True
              = (if take 5 matching \<noteq> []
                 then (Inr (take 5 matching),
                       [Print (SearchingOnlyCurrentPdf (basename pdf_file_path))])
                 else (Inr (take 5 pool), [Print NoChunksFromCurrentPdf]))"
    unfolding retrieve_def similarity_search_def Let_def pool_def matching_def
    by (simp only: assms option.case if_True)
  have none: "(take 5 matching = []) = (matching = [])"
    by simp
  have sub: "set (take 5 matching) \<subseteq> set matching"
    by (rule set_take_subset)
  have in_pool: "set (take 5 matching) \<subseteq> set pool"
    using sub unfolding matching_def by auto
  have all_match:
    "\<forall>d\<in>set (take 5 matching). endswith (source_or_empty d) (basename pdf_file_path)"
    using sub unfolding matching_def by auto
  have pool5: "set (take 5 pool) \<subseteq> set pool"
    by (rule set_take_subset)
  have goal: "\<exists>docs evs. retrieve x c pdf_file_path question True = (Inr docs, evs)
     \<and> length docs \<le> 5
     \<and> set docs \<subseteq> set pool
     \<and> (if matching = []
         then docs = take 5 pool \<and> evs = [Print NoChunksFromCurrentPdf]
         else docs = take 5 matching
              \<and> evs = [Print (SearchingOnlyCurrentPdf (basename pdf_file_path))]
              \<and> (\<forall>d\<in>set docs. endswith (source_or_empty d) (basename pdf_file_path)))"
  proof (cases "matching = []")
    case True
    then show ?thesis
      unfolding eq using pool5 by simp
  next
    case False
    then show ?thesis
      unfolding eq none using in_pool all_match by simp
  qed
  then show ?thesis
    unfolding matching_def pool_def .
qed

text \<open>
  The theorem for the file \<open>uploads/a.pdf\<close>: over a store with two chunks of \<open>a.pdf\<close> and
  one of another file, and over a store with no chunk of \<open>a.pdf\<close>.
\<close>

theorem retrieve_single_document_witness:
  "retrieve quiet [(id_alpha, chunk_alpha), (id_old, chunk_old), (id_beta, chunk_beta)]
     (lit ''uploads/a.pdf'') (lit ''What is required?'') True
   = (Inr [chunk_alpha, chunk_beta], [Print (SearchingOnlyCurrentPdf (lit ''a.pdf''))])
   \<and> retrieve quiet [(id_old, chunk_old)]
     (lit ''uploads/a.pdf'') (lit ''What is required?'') True
   = (Inr [chunk_old], [Print NoChunksFromCurrentPdf])"
proof -
  have s: "search_raises quiet = None"
    by (simp add: quiet_def)
  have b: "basename (lit ''uploads/a.pdf'') = lit ''a.pdf''"
    by (simp add: basename_def lit_def)
  have m: "endswith (source_or_empty chunk_alpha) (lit ''a.pdf'')"
      "endswith (source_or_empty chunk_beta) (lit ''a.pdf'')"
      "\<not> endswith (source_or_empty chunk_old) (lit ''a.pdf'')"
    by (simp_all add: endswith_def source_or_empty_def chunk_alpha_def chunk_beta_def
          chunk_old_def lit_def)
  have p1: "take 20 (rank quiet [(id_alpha, chunk_alpha), (id_old, chunk_old), (id_beta, chunk_beta)]
                       (lit ''What is required?'')) = [chunk_alpha, chunk_old, chunk_beta]"
    by (simp add: quiet_def)
  have p2: "take 20 (rank quiet [(id_old, chunk_old)] (lit ''What is required?'')) = [chunk_old]"
    by (simp add: quiet_def)
  from retrieve_single_document [OF s,
      of "[(id_alpha, chunk_alpha), (id_old, chunk_old), (id_beta, chunk_beta)]"
         "lit ''uploads/a.pdf''" "lit ''What is required?''"]
  have r1: "retrieve quiet [(id_alpha, chunk_alpha), (id_old, chunk_old), (id_beta, chunk_beta)]
              (lit ''uploads/a.pdf'') (lit ''What is required?'') True
            = (Inr [chunk_alpha, chunk_beta], [Print (SearchingOnlyCurrentPdf (lit ''a.pdf''))])"
    unfolding p1 b by (simp add: m)
  from retrieve_single_document [OF s, of "[(id_old, chunk_old)]"
         "lit ''uploads/a.pdf''" "lit ''What is required?''"]
  have r2: "retrieve quiet [(id_old, chunk_old)]
              (lit ''uploads/a.pdf'') (lit ''What is required?'') True
            = (Inr [chunk_old], [Print NoChunksFromCurrentPdf])"
    unfolding p2 b by (simp add: m)
  from r1 r2 show ?thesis
    by simp
qed

text \<open>
  C5 as stated fails: the filter compares the end of the source path, not its base name.
  For the file \<open>regulation.pdf\<close> the chunk of \<open>docs/old_regulation.pdf\<close> is kept and
  returned as a chunk of the current file, although the base names differ.
\<close>

theorem retrieve_suffix_counterexample:
  "retrieve quiet [(id_old, chunk_old)] (lit ''uploads/regulation.pdf'')
     (lit ''What is required?'') True
   = (Inr [chunk_old], [Print (SearchingOnlyCurrentPdf (lit ''regulation.pdf''))])
   \<and> basename (source_or_empty chunk_old) = lit ''old_regulation.pdf''
   \<and> basename (lit ''uploads/regulation.pdf'') = lit ''regulation.pdf''
   \<and> lit ''old_regulation.pdf'' \<noteq> lit ''regulation.pdf''"
  by (simp add: retrieve_def quiet_def similarity_search_def basename_def endswith_def
        source_or_empty_def chunk_old_def lit_def Let_def)

section \<open>Claims about \<open>query_all_pdfs\<close>\<close>











section \<open>Claims about introspection\<close>


lemma readable_append: "readable (xs @ ys) = readable xs @ readable ys"
  by (simp add: readable_def)

lemma readable_concat: "readable (concat xss) = concat (map readable xss)"
  by (induction xss) (simp_all add: readable_append, simp add: readable_def)







section \<open>Ingesting a document twice\<close>

lemma chunk_ids_old_bare: "chunk_ids_of first32 [chunk_old, chunk_bare] = Inr [id_old, id_bare]"
  by code_simp

lemma fst_set_zip: "length xs = length ys \<Longrightarrow> fst ` set (zip xs ys) = set xs"
  by (induction xs ys rule: list_induct2) auto

lemma ingest_holds_ids:
  assumes len: "length chunk_ids = length chunks"
    and ok: "get_raises x = None"
    and first: "ingest x u chunks chunk_ids fs = (Inr c, evs, fs1)"
  shows "fs1 CHROMA_DB_DIR = Some c \<and> set chunk_ids \<subseteq> fst ` set c"
proof (cases "(if u = Some True then fs CHROMA_DB_DIR else None)")
  case None
  with first obtain c0 where c: "c = add_documents c0 (zip chunk_ids chunks)"
      and f: "fs1 = fs(CHROMA_DB_DIR \<mapsto> c)"
    by (auto simp: ingest_def from_documents_def Let_def split: option.splits prod.splits sum.splits)
  have "fst ` set c = fst ` set c0 \<union> set chunk_ids"
    unfolding c by (simp add: add_documents_ids fst_set_zip len)
  with f show ?thesis
    by auto
next
  case (Some stored)
  with first obtain a evs1 where a: "accumulate x stored chunks chunk_ids = (Inr a, evs1)"
      and c: "c = vectorstore a" and f: "fs1 = fs(CHROMA_DB_DIR \<mapsto> c)"
    by (auto simp: ingest_def split: prod.splits sum.splits)
  have o: "open_raises x = None"
    using a by (auto simp: accumulate_def split: option.splits)
  have E: "existing_ids_of (get_raises x) stored chunk_ids
             = Inr (fst ` set stored \<inter> set chunk_ids)"
    using ok by (simp add: existing_ids_of_None)
  define ps where "ps = filter (\<lambda>p. snd p \<notin> fst ` set stored \<inter> set chunk_ids) (zip chunks chunk_ids)"
  have v: "vectorstore a = (if map fst ps = [] then stored
                            else add_documents stored (zip (map snd ps) (map fst ps)))"
    using a o E
    by (auto simp: accumulate_def select_new_zip Let_def ps_def split: option.splits)
  have nids: "map snd ps = filter (\<lambda>i. i \<notin> fst ` set stored \<inter> set chunk_ids) chunk_ids"
    unfolding ps_def using filter_zip_snd [of chunks chunk_ids] len by simp
  have "fst ` set (vectorstore a) = fst ` set stored \<union> set (map snd ps)"
  proof (cases "map fst ps = []")
    case True
    then have "ps = []" by simp
    then show ?thesis using v by simp
  next
    case False
    then show ?thesis
      using v by (simp add: add_documents_ids fst_set_zip)
  qed
  then have "set chunk_ids \<subseteq> fst ` set (vectorstore a)"
    unfolding nids by auto
  with c f show ?thesis
    by simp
qed

lemma accumulate_all_known:
  assumes known: "set chunk_ids \<subseteq> fst ` set stored"
    and ok: "open_raises x = None" "get_raises x = None"
  shows "accumulate x stored chunks chunk_ids
           = (Inr \<lparr>chunks_before = length stored, existing_ids = set chunk_ids,
                   new_chunks = [], new_chunk_ids = [],
                   duplicates_skipped = int (length chunks),
                   add_documents_call = None, vectorstore = stored\<rparr>,
              [Print (AllChunksAlreadyExist (length chunks))])"
proof -
  have E: "existing_ids_of (get_raises x) stored chunk_ids = Inr (set chunk_ids)"
    using ok(2) known by (simp add: existing_ids_of_None Int_absorb1)
  have none: "filter (\<lambda>p. snd p \<notin> set chunk_ids) (zip chunks chunk_ids) = []"
    by (rule select_new_all_known) simp
  show ?thesis
    using ok(1) E none by (simp add: accumulate_def select_new_zip)
qed

text \<open>
  Idempotent ingestion, from one run to the next. When an ingestion of the chunks of a
  document has run through, in either mode, an ingestion of the same chunks in accumulate
  mode right after it, with a store that opens and a lookup that answers, adds nothing:
  it returns the same collection and leaves the store directory as the first run left it.
\<close>

theorem ingest_twice_adds_nothing:
  assumes ids: "chunk_ids_of sha256 chunks = Inr chunk_ids"
    and ok: "open_raises x = None" "get_raises x = None"
    and first: "ingest x u chunks chunk_ids fs = (Inr c, evs, fs1)"
  shows "ingest x (Some True) chunks chunk_ids fs1
           = (Inr c, [Print (AllChunksAlreadyExist (length chunks)),
                      Print (TotalChunksInDatabase (length c))], fs1)"
proof -
  have len: "length chunk_ids = length chunks"
    using ids by (rule chunk_ids_of_length)
  from ingest_holds_ids [OF len ok(2) first]
  have dir: "fs1 CHROMA_DB_DIR = Some c" and known: "set chunk_ids \<subseteq> fst ` set c"
    by simp_all
  have "fs1(CHROMA_DB_DIR \<mapsto> c) = fs1"
    using dir by (rule map_upd_triv)
  then show ?thesis
    using accumulate_all_known [OF known ok, of chunks] dir by (simp add: ingest_def)
qed

text \<open>The theorem for \<open>alpha\<close> and \<open>beta\<close>, ingested into no store and then again.\<close>

theorem ingest_twice_adds_nothing_witness:
  "ingest quiet None [chunk_alpha, chunk_beta] [id_alpha, id_beta] Map.empty
     = (Inr [(id_alpha, chunk_alpha), (id_beta, chunk_beta)], [Print (TotalChunksInDatabase 2)],
        Map.empty(CHROMA_DB_DIR \<mapsto> [(id_alpha, chunk_alpha), (id_beta, chunk_beta)]))
   \<and> ingest quiet (Some True) [chunk_alpha, chunk_beta] [id_alpha, id_beta]
        (Map.empty(CHROMA_DB_DIR \<mapsto> [(id_alpha, chunk_alpha), (id_beta, chunk_beta)]))
     = (Inr [(id_alpha, chunk_alpha), (id_beta, chunk_beta)],
        [Print (AllChunksAlreadyExist 2), Print (TotalChunksInDatabase 2)],
        Map.empty(CHROMA_DB_DIR \<mapsto> [(id_alpha, chunk_alpha), (id_beta, chunk_beta)]))"
proof -
  have first: "ingest quiet None [chunk_alpha, chunk_beta] [id_alpha, id_beta] Map.empty
     = (Inr [(id_alpha, chunk_alpha), (id_beta, chunk_beta)], [Print (TotalChunksInDatabase 2)],
        Map.empty(CHROMA_DB_DIR \<mapsto> [(id_alpha, chunk_alpha), (id_beta, chunk_beta)]))"
    using id_alpha_neq_beta by (simp add: ingest_def from_documents_def quiet_def)
  from ingest_twice_adds_nothing [OF chunk_ids_alpha_beta quiet_simps(1) quiet_simps(2) first] first
  show ?thesis
    by simp
qed

end
